theory Spec2Isabelle
  imports Main
begin

section \<open>Python values, exceptions and observable events\<close>

text \<open>
  The monitor is a Python program. Values read from the YAML configuration are
  modelled by \<open>pyval\<close> (floating point numbers are left out); a dictionary is an
  association list in insertion order, with strings as keys.
  Exceptions are values of \<open>exn\<close>; every constructor is a subclass of Python's
  \<open>Exception\<close>. \<open>MySQLError\<close>, \<open>Psycopg2Error\<close>, \<open>RedisError\<close> and \<open>AMQPError\<close> stand for
  the error hierarchies of the four client libraries (\<open>mysql.connector.Error\<close>,
  \<open>psycopg2.Error\<close>, \<open>redis.RedisError\<close>, \<open>pika.exceptions.AMQPError\<close>).
\<close>

datatype pyval =
    PNone
  | PBool bool
  | PInt int
  | PStr string
  | PList "pyval list"
  | PDict "(string \<times> pyval) list"

datatype exn =
    MySQLError
  | Psycopg2Error
  | RedisError
  | AMQPError
  | AttributeError
  | TypeError
  | ValueError
  | IndexError
  | UnicodeDecodeError
  | ModuleNotFoundError
  | OSError
  | YAMLError
  | OverflowError

datatype level = INFO | ERROR | CRITICAL

text \<open>
  A connection object handed out by a client library. \<open>is_closed\<close> is the state a
  caller can observe on it (\<open>connection.is_closed\<close> in pika, \<open>connection.closed\<close> in
  psycopg2). None of the library classes defines \<open>__bool__\<close> or \<open>__len__\<close>, so a
  connection object is always truthy; only \<open>None\<close> is falsy.
\<close>

record conn =
  conn_id :: nat
  is_closed :: bool

text \<open>Calls made on a connection (or on the cursor or channel obtained from it).\<close>

datatype call =
    Cursor
  | Execute string
  | Fetchone
  | RSet string string
  | RGet string
  | RIncr string int
  | RDelete string
  | RExists string
  | Channel
  | QueueDeclare string
  | BasicPublish string string string
  | BasicConsume string
  | StartConsuming

text \<open>
  Everything a run does that is visible from outside, in program order: log records
  (level and the fixed part of the message), files opened, library connection attempts
  with their keyword arguments, calls on a connection, writes to a gauge, and sleeps.
\<close>

datatype event =
    Log level string
  | Opened string
  | LibConnect "(string \<times> pyval) list"
  | Call conn call
  | MetricSet int
  | Sleep pyval

text \<open>\<open>d.get(k, default)\<close>: only a dictionary has the method.\<close>

fun py_get :: "pyval \<Rightarrow> string \<Rightarrow> pyval \<Rightarrow> exn + pyval" where
  "py_get (PDict kvs) k dflt = Inr (case map_of kvs k of Some v \<Rightarrow> v | None \<Rightarrow> dflt)"
| "py_get _ k dflt = Inl AttributeError"

text \<open>\<open>d.items()\<close>: the key/value pairs in insertion order.\<close>

fun py_items :: "pyval \<Rightarrow> exn + (string \<times> pyval) list" where
  "py_items (PDict kvs) = Inr kvs"
| "py_items _ = Inl AttributeError"

text \<open>
  \<open>time.sleep(x)\<close>: a number is required (\<open>bool\<close> is a subclass of \<open>int\<close>). The
  seconds are converted to a signed 64-bit count of nanoseconds, which raises
  \<open>OverflowError\<close> above 9223372036 seconds; after the conversion a negative value
  raises \<open>ValueError\<close>.
\<close>

fun py_sleep :: "pyval \<Rightarrow> exn + unit" where
  "py_sleep (PInt n) =
     (if 9223372036 < n \<or> n < - 9223372036 then Inl OverflowError
      else if n < 0 then Inl ValueError
      else Inr ())"
| "py_sleep (PBool b) = Inr ()"
| "py_sleep _ = Inl TypeError"

section \<open>Configuration (src/config.py)\<close>

text \<open>
  The file system as the configuration loader sees it: for each path, the outcome of
  \<open>open(path)\<close> followed by \<open>yaml.safe_load\<close>: an exception (\<open>OSError\<close> for a missing
  file, \<open>YAMLError\<close> for a malformed one) or the parsed document.
\<close>

type_synonym filesystem = "string \<Rightarrow> exn + pyval"

text \<open>
  \<open>Config.conf\<close>: the property assigns \<open>conf_file\<close> twice, then opens and parses it
  under \<open>except Exception\<close>.
\<close>

definition conf :: "filesystem \<Rightarrow> pyval \<times> event list" where
  "conf fs =
     (let conf_file = ''conf-test.yml'';
          conf_file = ''/config/conf.yml''
      in case fs conf_file of
           Inr configs \<Rightarrow> (configs, [Opened conf_file, Log INFO ''Configuration loaded''])
         | Inl e \<Rightarrow> (PDict [], [Opened conf_file, Log CRITICAL ''Failed to load configuration'']))"

text \<open>\<open>Config.services\<close>: \<open>self.conf.get("services", None)\<close>.\<close>

definition services :: "filesystem \<Rightarrow> (exn + pyval) \<times> event list" where
  "services fs = (case conf fs of (c, evs) \<Rightarrow> (py_get c ''services'' PNone, evs))"

fun opened_paths :: "event list \<Rightarrow> string list" where
  "opened_paths [] = []"
| "opened_paths (Opened p # evs) = p # opened_paths evs"
| "opened_paths (_ # evs) = opened_paths evs"

section \<open>Connection holders (the \<open>*Connection\<close> classes)\<close>

text \<open>
  The client library's connect call, as the environment answers it: from the keyword
  arguments to a fresh connection object or an exception.
\<close>

type_synonym lib_connect = "(string \<times> pyval) list \<Rightarrow> exn + conn"

record MySQLConnection =
  my_username :: pyval
  my_password :: pyval
  my_database :: pyval
  my_fqdn :: pyval
  my_port :: pyval
  my_connection :: "conn option"

record PostgreSQLConnection =
  pg_username :: pyval
  pg_password :: pyval
  pg_database :: pyval
  pg_fqdn :: pyval
  pg_port :: pyval
  pg_connection :: "conn option"

record RedisConnection =
  rd_password :: pyval
  rd_db :: int
  rd_fqdn :: pyval
  rd_port :: pyval
  rd_connection :: "conn option"

record RabbitMQConnection =
  rb_username :: pyval
  rb_password :: pyval
  rb_fqdn :: pyval
  rb_port :: pyval
  rb_connection :: "conn option"

text \<open>
  \<open>MySQLConnection.connect\<close>: \<open>self.connection = mysql.connector.connect(...)\<close> under
  \<open>except mysql.connector.Error\<close>. An exception of another class is not handled here.
  The result is the exception that leaves the method (or none), the object after the
  call, and the events.
\<close>

definition mysql_kwargs :: "MySQLConnection \<Rightarrow> (string \<times> pyval) list" where
  "mysql_kwargs self =
     [(''user'', my_username self), (''password'', my_password self),
      (''host'', my_fqdn self), (''port'', my_port self), (''database'', my_database self)]"

definition MySQLConnection_connect ::
  "lib_connect \<Rightarrow> MySQLConnection \<Rightarrow> (exn + unit) \<times> MySQLConnection \<times> event list" where
  "MySQLConnection_connect lib self =
     (let args = mysql_kwargs self
      in case lib args of
           Inr c \<Rightarrow> (Inr (), self\<lparr>my_connection := Some c\<rparr>, [LibConnect args])
         | Inl err \<Rightarrow>
             if err = MySQLError
             then (Inr (), self, [LibConnect args, Log ERROR ''Error connecting to MySQL''])
             else (Inl err, self, [LibConnect args]))"

text \<open>
  \<open>MySQLConnection.get_connection(force)\<close>: reconnect when forced, connect when nothing
  is cached, return the cached attribute.
\<close>

definition MySQLConnection_get_connection ::
  "lib_connect \<Rightarrow> MySQLConnection \<Rightarrow> bool
     \<Rightarrow> (exn + conn option) \<times> MySQLConnection \<times> event list" where
  "MySQLConnection_get_connection lib self force =
     (if force then
        (case MySQLConnection_connect lib self of
           (Inl e, self', evs) \<Rightarrow> (Inl e, self', evs)
         | (Inr _, self', evs) \<Rightarrow> (Inr (my_connection self'), self', evs))
      else if my_connection self = None then
        (case MySQLConnection_connect lib self of
           (Inl e, self', evs) \<Rightarrow> (Inl e, self', evs)
         | (Inr _, self', evs) \<Rightarrow> (Inr (my_connection self'), self', evs))
      else (Inr (my_connection self), self, []))"

text \<open>\<open>PostgreSQLConnection.connect\<close>: as above, under \<open>except psycopg2.Error\<close>.\<close>

definition postgresql_kwargs :: "PostgreSQLConnection \<Rightarrow> (string \<times> pyval) list" where
  "postgresql_kwargs self =
     [(''user'', pg_username self), (''password'', pg_password self),
      (''host'', pg_fqdn self), (''port'', pg_port self), (''database'', pg_database self)]"

definition PostgreSQLConnection_connect ::
  "lib_connect \<Rightarrow> PostgreSQLConnection \<Rightarrow> (exn + unit) \<times> PostgreSQLConnection \<times> event list" where
  "PostgreSQLConnection_connect lib self =
     (let args = postgresql_kwargs self
      in case lib args of
           Inr c \<Rightarrow> (Inr (), self\<lparr>pg_connection := Some c\<rparr>, [LibConnect args])
         | Inl err \<Rightarrow>
             if err = Psycopg2Error
             then (Inr (), self, [LibConnect args, Log ERROR ''Error connecting to PostgreSQL''])
             else (Inl err, self, [LibConnect args]))"

text \<open>\<open>PostgreSQLConnection.get_connection\<close>: \<open>if not self.connection: self.connect()\<close>.\<close>

definition PostgreSQLConnection_get_connection ::
  "lib_connect \<Rightarrow> PostgreSQLConnection
     \<Rightarrow> (exn + conn option) \<times> PostgreSQLConnection \<times> event list" where
  "PostgreSQLConnection_get_connection lib self =
     (if pg_connection self = None then
        (case PostgreSQLConnection_connect lib self of
           (Inl e, self', evs) \<Rightarrow> (Inl e, self', evs)
         | (Inr _, self', evs) \<Rightarrow> (Inr (pg_connection self'), self', evs))
      else (Inr (pg_connection self), self, []))"

text \<open>\<open>RedisConnection.connect\<close>: \<open>redis.StrictRedis(...)\<close> under \<open>except Exception\<close>.\<close>

definition redis_kwargs :: "RedisConnection \<Rightarrow> (string \<times> pyval) list" where
  "redis_kwargs self =
     [(''host'', rd_fqdn self), (''port'', rd_port self),
      (''db'', PInt (rd_db self)), (''password'', rd_password self)]"

definition RedisConnection_connect ::
  "lib_connect \<Rightarrow> RedisConnection \<Rightarrow> (exn + unit) \<times> RedisConnection \<times> event list" where
  "RedisConnection_connect lib self =
     (let args = redis_kwargs self
      in case lib args of
           Inr c \<Rightarrow> (Inr (), self\<lparr>rd_connection := Some c\<rparr>, [LibConnect args])
         | Inl e \<Rightarrow> (Inr (), self, [LibConnect args, Log ERROR ''Error connecting to Redis'']))"

definition RedisConnection_get_connection ::
  "lib_connect \<Rightarrow> RedisConnection \<Rightarrow> (exn + conn option) \<times> RedisConnection \<times> event list" where
  "RedisConnection_get_connection lib self =
     (if rd_connection self = None then
        (case RedisConnection_connect lib self of
           (Inl e, self', evs) \<Rightarrow> (Inl e, self', evs)
         | (Inr _, self', evs) \<Rightarrow> (Inr (rd_connection self'), self', evs))
      else (Inr (rd_connection self), self, []))"

text \<open>
  \<open>RabbitMQConnection.connect\<close>: \<open>pika.BlockingConnection(pika.ConnectionParameters(host,
  port, credentials=pika.PlainCredentials(username, password)))\<close> under \<open>except Exception\<close>.
\<close>

definition rabbitmq_kwargs :: "RabbitMQConnection \<Rightarrow> (string \<times> pyval) list" where
  "rabbitmq_kwargs self =
     [(''host'', rb_fqdn self), (''port'', rb_port self),
      (''username'', rb_username self), (''password'', rb_password self)]"

definition RabbitMQConnection_connect ::
  "lib_connect \<Rightarrow> RabbitMQConnection \<Rightarrow> (exn + unit) \<times> RabbitMQConnection \<times> event list" where
  "RabbitMQConnection_connect lib self =
     (let args = rabbitmq_kwargs self
      in case lib args of
           Inr c \<Rightarrow> (Inr (), self\<lparr>rb_connection := Some c\<rparr>, [LibConnect args])
         | Inl e \<Rightarrow> (Inr (), self, [LibConnect args, Log ERROR ''Error connecting to RabbitMQ'']))"

text \<open>
  \<open>RabbitMQConnection.get_connection\<close>:
  \<open>if not self.connection or self.connection.is_closed: self.connect()\<close>.
\<close>

definition RabbitMQConnection_get_connection ::
  "lib_connect \<Rightarrow> RabbitMQConnection
     \<Rightarrow> (exn + conn option) \<times> RabbitMQConnection \<times> event list" where
  "RabbitMQConnection_get_connection lib self =
     (if (case rb_connection self of None \<Rightarrow> True | Some c \<Rightarrow> is_closed c) then
        (case RabbitMQConnection_connect lib self of
           (Inl e, self', evs) \<Rightarrow> (Inl e, self', evs)
         | (Inr _, self', evs) \<Rightarrow> (Inr (rb_connection self'), self', evs))
      else (Inr (rb_connection self), self, []))"

text \<open>The number of library connection attempts in a trace.\<close>

fun connect_attempts :: "event list \<Rightarrow> nat" where
  "connect_attempts [] = 0"
| "connect_attempts (LibConnect args # evs) = Suc (connect_attempts evs)"
| "connect_attempts (_ # evs) = connect_attempts evs"

section \<open>Probe loops (the \<open>*_test\<close> classes)\<close>

text \<open>
  Statements of a \<open>try\<close> body run in sequence until one raises. A computation yields an
  exception or a value, together with the events it produced; \<open>andthen\<close> runs the
  continuation only after a normal result and keeps the events of both.
\<close>

definition andthen ::
  "(exn + 'a) \<times> event list \<Rightarrow> ('a \<Rightarrow> (exn + 'b) \<times> event list) \<Rightarrow> (exn + 'b) \<times> event list" where
  "andthen m f =
     (case m of
        (Inl e, evs) \<Rightarrow> (Inl e, evs)
      | (Inr x, evs) \<Rightarrow> (case f x of (r, evs') \<Rightarrow> (r, evs @ evs')))"

definition ret :: "'a \<Rightarrow> (exn + 'a) \<times> event list" where
  "ret x = (Inr x, [])"

definition raise :: "exn \<Rightarrow> (exn + 'a) \<times> event list" where
  "raise e = (Inl e, [])"

definition emit :: "event \<Rightarrow> (exn + unit) \<times> event list" where
  "emit ev = (Inr (), [ev])"

text \<open>A call on connection \<open>c\<close> whose outcome the environment supplies.\<close>

definition lib_call :: "conn \<Rightarrow> call \<Rightarrow> exn + 'a \<Rightarrow> (exn + 'a) \<times> event list" where
  "lib_call c k outcome = (outcome, [Call c k])"

text \<open>
  Attribute access or a method call on the value \<open>get_connection\<close> returned: on \<open>None\<close>
  it raises \<open>AttributeError\<close>.
\<close>

definition deref :: "conn option \<Rightarrow> (exn + conn) \<times> event list" where
  "deref connection = (case connection of None \<Rightarrow> raise AttributeError | Some c \<Rightarrow> ret c)"

definition sleep_for :: "pyval \<Rightarrow> (exn + unit) \<times> event list" where
  "sleep_for x = (case py_sleep x of Inl e \<Rightarrow> (Inl e, []) | Inr u \<Rightarrow> (Inr (), [Sleep x]))"

text \<open>
  The attributes the four test classes share: \<open>result\<close> (a class attribute of \<open>Base\<close>,
  initially \<open>False\<close>), \<open>check_interval\<close> as read from the configuration, and whether
  \<open>stop_event\<close> is set. The connection holder an instance refers to is passed beside it.
\<close>

record test_obj =
  check_interval :: pyval
  stop_event :: bool
  result :: bool

text \<open>
  How a run of a loop over a finite script of cycles ends: still \<open>Running\<close> when the
  script is used up, \<open>Returned\<close> when the loop condition failed, \<open>Raised\<close> when an
  exception left the loop (the thread is gone), \<open>Blocked\<close> inside a call that never returns.
\<close>

datatype status = Running | Returned | Raised exn | Blocked

subsection \<open>MySQL and PostgreSQL: \<open>query_check\<close>\<close>

text \<open>
  What the database answers during one cycle: the connect call, \<open>connection.cursor()\<close>,
  \<open>cursor.execute(query)\<close> and \<open>cursor.fetchone()\<close> (no row, or a row of integers).
\<close>

record sql_env =
  sql_connect :: lib_connect
  cursor_r :: "conn \<Rightarrow> exn + unit"
  execute_r :: "conn \<Rightarrow> exn + unit"
  fetchone_r :: "conn \<Rightarrow> exn + int list option"

text \<open>
  The statements of the \<open>try\<close> body after the connection was obtained; \<open>db\<close> is the
  name used in the log messages. \<open>fetchone()[0]\<close> raises \<open>TypeError\<close> on \<open>None\<close> and
  \<open>IndexError\<close> on an empty row. The value is what the body assigns to \<open>self.result\<close>.
\<close>

definition sql_exercise :: "string \<Rightarrow> sql_env \<Rightarrow> conn option \<Rightarrow> (exn + bool) \<times> event list" where
  "sql_exercise db env connection =
     andthen (deref connection) (\<lambda>c.
     andthen (lib_call c Cursor (cursor_r env c)) (\<lambda>cursor.
     andthen (lib_call c (Execute ''SELECT 1'') (execute_r env c)) (\<lambda>u.
     andthen (lib_call c Fetchone (fetchone_r env c)) (\<lambda>row.
     andthen (case row of
                None \<Rightarrow> raise TypeError
              | Some [] \<Rightarrow> raise IndexError
              | Some (x # xs) \<Rightarrow> ret x) (\<lambda>first.
     if first = 1
     then andthen (emit (Log INFO (db @ '' query successful''))) (\<lambda>u. ret True)
     else andthen (emit (Log ERROR (db @ '' query failed''))) (\<lambda>u. ret False))))))"

text \<open>
  The tail of a cycle, after the \<open>try\<close> statement: \<open>metric.set(1 if self.result else 0)\<close>
  and \<open>time.sleep(self.check_interval)\<close>.
\<close>

definition record_and_sleep :: "test_obj \<Rightarrow> (exn + unit) \<times> event list" where
  "record_and_sleep self =
     andthen (emit (MetricSet (if result self then 1 else 0))) (\<lambda>u.
     sleep_for (check_interval self))"

text \<open>
  One iteration of \<open>mysql_test.query_check\<close>. The connection is requested with
  \<open>force=True\<close> when \<open>self.result\<close> is false. Only \<open>mysql.connector.Error\<close> is handled.
\<close>

definition mysql_test_cycle ::
  "sql_env \<Rightarrow> test_obj \<Rightarrow> MySQLConnection
     \<Rightarrow> (exn + unit) \<times> test_obj \<times> MySQLConnection \<times> event list" where
  "mysql_test_cycle env self drv =
     (case (if \<not> result self
            then MySQLConnection_get_connection (sql_connect env) drv True
            else MySQLConnection_get_connection (sql_connect env) drv False) of
        (got, drv', evs) \<Rightarrow>
          (case andthen (got, evs) (sql_exercise ''MySQL'' env) of
             (Inr r, evs1) \<Rightarrow>
               (let self' = self\<lparr>result := r\<rparr> in
                case record_and_sleep self' of (out, evs2) \<Rightarrow> (out, self', drv', evs1 @ evs2))
           | (Inl err, evs1) \<Rightarrow>
               if err = MySQLError then
                 (let self' = self\<lparr>result := False\<rparr> in
                  case record_and_sleep self' of
                    (out, evs2) \<Rightarrow> (out, self', drv', evs1 @ [Log ERROR ''MySQL error''] @ evs2))
               else (Inl err, self, drv', evs1)))"

text \<open>
  \<open>mysql_test.query_check\<close>: \<open>while not self.stop_event.is_set()\<close>, one cycle per
  element of the script.
\<close>

fun mysql_test_query_check ::
  "sql_env list \<Rightarrow> test_obj \<Rightarrow> MySQLConnection
     \<Rightarrow> status \<times> test_obj \<times> MySQLConnection \<times> event list" where
  "mysql_test_query_check [] self drv =
     (if stop_event self then Returned else Running, self, drv, [])"
| "mysql_test_query_check (env # envs) self drv =
     (if stop_event self then (Returned, self, drv, [])
      else case mysql_test_cycle env self drv of
             (Inl e, self', drv', evs) \<Rightarrow> (Raised e, self', drv', evs)
           | (Inr u, self', drv', evs) \<Rightarrow>
               (case mysql_test_query_check envs self' drv' of
                  (st, self'', drv'', evs') \<Rightarrow> (st, self'', drv'', evs @ evs')))"

text \<open>
  One iteration of \<open>postgresql_test.query_check\<close>: no \<open>force\<close>; only \<open>psycopg2.Error\<close>
  is handled.
\<close>

definition postgresql_test_cycle ::
  "sql_env \<Rightarrow> test_obj \<Rightarrow> PostgreSQLConnection
     \<Rightarrow> (exn + unit) \<times> test_obj \<times> PostgreSQLConnection \<times> event list" where
  "postgresql_test_cycle env self drv =
     (case PostgreSQLConnection_get_connection (sql_connect env) drv of
        (got, drv', evs) \<Rightarrow>
          (case andthen (got, evs) (sql_exercise ''PostgreSQL'' env) of
             (Inr r, evs1) \<Rightarrow>
               (let self' = self\<lparr>result := r\<rparr> in
                case record_and_sleep self' of (out, evs2) \<Rightarrow> (out, self', drv', evs1 @ evs2))
           | (Inl err, evs1) \<Rightarrow>
               if err = Psycopg2Error then
                 (let self' = self\<lparr>result := False\<rparr> in
                  case record_and_sleep self' of
                    (out, evs2) \<Rightarrow> (out, self', drv', evs1 @ [Log ERROR ''PostgreSQL error''] @ evs2))
               else (Inl err, self, drv', evs1)))"

fun postgresql_test_query_check ::
  "sql_env list \<Rightarrow> test_obj \<Rightarrow> PostgreSQLConnection
     \<Rightarrow> status \<times> test_obj \<times> PostgreSQLConnection \<times> event list" where
  "postgresql_test_query_check [] self drv =
     (if stop_event self then Returned else Running, self, drv, [])"
| "postgresql_test_query_check (env # envs) self drv =
     (if stop_event self then (Returned, self, drv, [])
      else case postgresql_test_cycle env self drv of
             (Inl e, self', drv', evs) \<Rightarrow> (Raised e, self', drv', evs)
           | (Inr u, self', drv', evs) \<Rightarrow>
               (case postgresql_test_query_check envs self' drv' of
                  (st, self'', drv'', evs') \<Rightarrow> (st, self'', drv'', evs @ evs')))"

subsection \<open>Redis: \<open>test_redis\<close>\<close>

text \<open>
  \<open>bytes.decode("utf-8")\<close> in strict mode, from bytes (numbers below 256) to code
  points: overlong forms, surrogates and values above U+10FFFF raise
  \<open>UnicodeDecodeError\<close>, as does a truncated sequence.
\<close>

definition cont :: "nat \<Rightarrow> bool" where
  "cont b = (128 \<le> b \<and> b \<le> 191)"

fun utf8_decode :: "nat list \<Rightarrow> exn + nat list" where
  "utf8_decode [] = Inr []"
| "utf8_decode (b # bs) =
     (if b < 128 then
        (case utf8_decode bs of Inl e \<Rightarrow> Inl e | Inr cs \<Rightarrow> Inr (b # cs))
      else if 194 \<le> b \<and> b \<le> 223 then
        (case bs of
           c1 # r \<Rightarrow>
             if cont c1 then
               (case utf8_decode r of
                  Inl e \<Rightarrow> Inl e
                | Inr cs \<Rightarrow> Inr (((b - 192) * 64 + (c1 - 128)) # cs))
             else Inl UnicodeDecodeError
         | _ \<Rightarrow> Inl UnicodeDecodeError)
      else if 224 \<le> b \<and> b \<le> 239 then
        (case bs of
           c1 # c2 # r \<Rightarrow>
             if cont c1 \<and> cont c2 \<and> (if b = 224 then 160 \<le> c1 else True)
                \<and> (if b = 237 then c1 \<le> 159 else True) then
               (case utf8_decode r of
                  Inl e \<Rightarrow> Inl e
                | Inr cs \<Rightarrow> Inr (((b - 224) * 4096 + (c1 - 128) * 64 + (c2 - 128)) # cs))
             else Inl UnicodeDecodeError
         | _ \<Rightarrow> Inl UnicodeDecodeError)
      else if 240 \<le> b \<and> b \<le> 244 then
        (case bs of
           c1 # c2 # c3 # r \<Rightarrow>
             if cont c1 \<and> cont c2 \<and> cont c3 \<and> (if b = 240 then 144 \<le> c1 else True)
                \<and> (if b = 244 then c1 \<le> 143 else True) then
               (case utf8_decode r of
                  Inl e \<Rightarrow> Inl e
                | Inr cs \<Rightarrow>
                    Inr (((b - 240) * 262144 + (c1 - 128) * 4096 + (c2 - 128) * 64 + (c3 - 128)) # cs))
             else Inl UnicodeDecodeError
         | _ \<Rightarrow> Inl UnicodeDecodeError)
      else Inl UnicodeDecodeError)"

text \<open>
  A \<open>bytes\<close> value is a \<open>string\<close> (a list of 8-bit characters); a Python \<open>str\<close> is
  compared by its code points.
\<close>

definition decode :: "string \<Rightarrow> (exn + nat list) \<times> event list" where
  "decode v = (utf8_decode (map of_char v), [])"

definition code_points :: "string \<Rightarrow> nat list" where
  "code_points s = map of_char s"

definition key :: string where
  "key = ''DEVOPS_TEST_KEY''"

definition payload :: string where
  "payload = ''DEVOPS_TEST_VALUE''"

definition counter :: string where
  "counter = ''SRE_TEST_COUNTER''"

text \<open>
  What the cache answers during one cycle, one field per call of the body in program
  order. \<open>get\<close> returns \<open>None\<close> or bytes, \<open>exists\<close> a count; the values returned by
  \<open>set\<close>, \<open>incr\<close> and \<open>delete\<close> are not used by the program.
\<close>

record redis_env =
  redis_connect :: lib_connect
  set_r :: "exn + unit"
  get_key_r :: "exn + string option"
  incr_r :: "exn + unit"
  get_counter_r :: "exn + string option"
  delete_key_r :: "exn + unit"
  delete_counter_r :: "exn + unit"
  exists_r :: "exn + int"

text \<open>
  The \<open>try\<close> body of \<open>test_redis\<close> after the connection was obtained. The condition
  \<open>value and value.decode("utf-8") == self.payload\<close> is false for \<open>None\<close> and for empty
  bytes without decoding. The log line after \<open>incr\<close> decodes the counter read back, so
  \<open>None\<close> raises \<open>AttributeError\<close> there.
\<close>

definition redis_exercise :: "redis_env \<Rightarrow> conn option \<Rightarrow> (exn + bool) \<times> event list" where
  "redis_exercise env connection =
     andthen (deref connection) (\<lambda>c.
     andthen (lib_call c (RSet key payload) (set_r env)) (\<lambda>u.
     andthen (emit (Log INFO ''Set key'')) (\<lambda>u.
     andthen (lib_call c (RGet key) (get_key_r env)) (\<lambda>val.
     andthen (case val of
                None \<Rightarrow> ret False
              | Some v \<Rightarrow>
                  if v = [] then ret False
                  else andthen (decode v) (\<lambda>s. ret (s = code_points payload))) (\<lambda>matches.
     if matches then
       andthen (emit (Log INFO ''Value for key'')) (\<lambda>u.
       andthen (lib_call c (RIncr counter 1) (incr_r env)) (\<lambda>u.
       andthen (lib_call c (RGet counter) (get_counter_r env)) (\<lambda>counter_value.
       andthen (case counter_value of
                  None \<Rightarrow> raise AttributeError
                | Some cv \<Rightarrow> andthen (decode cv) (\<lambda>s. ret ())) (\<lambda>u.
       andthen (emit (Log INFO ''Incremented counter'')) (\<lambda>u.
       andthen (lib_call c (RDelete key) (delete_key_r env)) (\<lambda>u.
       andthen (lib_call c (RDelete counter) (delete_counter_r env)) (\<lambda>u.
       andthen (emit (Log INFO ''Deleted key and counter'')) (\<lambda>u.
       andthen (lib_call c (RExists key) (exists_r env)) (\<lambda>key_exists.
       andthen (emit (Log INFO ''Does key exist?'')) (\<lambda>u.
       ret (key_exists = 0)))))))))))
     else
       andthen (emit (Log ERROR ''Key not found or value mismatch'')) (\<lambda>u. ret False))))))"

text \<open>One iteration of \<open>redis_test.test_redis\<close>; \<open>except Exception\<close> handles everything.\<close>

definition redis_test_cycle ::
  "redis_env \<Rightarrow> test_obj \<Rightarrow> RedisConnection
     \<Rightarrow> (exn + unit) \<times> test_obj \<times> RedisConnection \<times> event list" where
  "redis_test_cycle env self drv =
     (case RedisConnection_get_connection (redis_connect env) drv of
        (got, drv', evs) \<Rightarrow>
          (case andthen (got, evs) (redis_exercise env) of
             (Inr r, evs1) \<Rightarrow>
               (let self' = self\<lparr>result := r\<rparr> in
                case record_and_sleep self' of (out, evs2) \<Rightarrow> (out, self', drv', evs1 @ evs2))
           | (Inl err, evs1) \<Rightarrow>
               (let self' = self\<lparr>result := False\<rparr> in
                case record_and_sleep self' of
                  (out, evs2) \<Rightarrow>
                    (out, self', drv', evs1 @ [Log ERROR ''Redis operation error''] @ evs2))))"

fun redis_test_test_redis ::
  "redis_env list \<Rightarrow> test_obj \<Rightarrow> RedisConnection
     \<Rightarrow> status \<times> test_obj \<times> RedisConnection \<times> event list" where
  "redis_test_test_redis [] self drv =
     (if stop_event self then Returned else Running, self, drv, [])"
| "redis_test_test_redis (env # envs) self drv =
     (if stop_event self then (Returned, self, drv, [])
      else case redis_test_cycle env self drv of
             (Inl e, self', drv', evs) \<Rightarrow> (Raised e, self', drv', evs)
           | (Inr u, self', drv', evs) \<Rightarrow>
               (case redis_test_test_redis envs self' drv' of
                  (st, self'', drv'', evs') \<Rightarrow> (st, self'', drv'', evs @ evs')))"

subsection \<open>RabbitMQ: \<open>send_message_test\<close> and \<open>read_message_test\<close>\<close>

definition queue :: string where
  "queue = ''SRE_TEST_QUEUE''"

definition rabbitmq_payload :: string where
  "rabbitmq_payload = ''SRE_TEST_PAYLOAD''"

text \<open>
  How \<open>channel.start_consuming()\<close> ends after delivering some messages to the
  callback: it never returns, it returns (every consumer was cancelled), or it raises.
\<close>

datatype consume_end = Blocks | Stops | Fails exn

text \<open>What the broker answers during one cycle of either sub-probe.\<close>

record amqp_env =
  amqp_connect :: lib_connect
  channel_r :: "exn + unit"
  queue_declare_r :: "exn + unit"
  basic_publish_r :: "exn + unit"
  basic_consume_r :: "exn + unit"
  consume_r :: "nat \<times> consume_end"

text \<open>
  One iteration of \<open>send_message_test\<close>. \<open>metric.set(1)\<close> and the sleep are inside the
  \<open>try\<close>; the handler logs, writes 0 and sleeps again, outside any \<open>try\<close>.
\<close>

definition rabbitmq_send_cycle ::
  "amqp_env \<Rightarrow> test_obj \<Rightarrow> RabbitMQConnection
     \<Rightarrow> (exn + unit) \<times> test_obj \<times> RabbitMQConnection \<times> event list" where
  "rabbitmq_send_cycle env self drv =
     (case RabbitMQConnection_get_connection (amqp_connect env) drv of
        (got, drv', evs) \<Rightarrow>
          (case andthen (got, evs) (\<lambda>connection.
                andthen (deref connection) (\<lambda>c.
                andthen (lib_call c Channel (channel_r env)) (\<lambda>channel.
                andthen (lib_call c (QueueDeclare queue) (queue_declare_r env)) (\<lambda>u.
                andthen (lib_call c (BasicPublish [] queue rabbitmq_payload) (basic_publish_r env)) (\<lambda>u.
                andthen (emit (Log INFO ''Sent Message'')) (\<lambda>u.
                andthen (emit (MetricSet 1)) (\<lambda>u.
                sleep_for (check_interval self)))))))) of
             (Inr u, evs1) \<Rightarrow> (Inr (), self, drv', evs1)
           | (Inl err, evs1) \<Rightarrow>
               (case andthen (emit (Log ERROR ''Error sending message'')) (\<lambda>u.
                     andthen (emit (MetricSet 0)) (\<lambda>u.
                     sleep_for (check_interval self))) of
                  (out, evs2) \<Rightarrow> (out, self, drv', evs1 @ evs2))))"

fun rabbitmq_test_send_message_test ::
  "amqp_env list \<Rightarrow> test_obj \<Rightarrow> RabbitMQConnection
     \<Rightarrow> status \<times> test_obj \<times> RabbitMQConnection \<times> event list" where
  "rabbitmq_test_send_message_test [] self drv =
     (if stop_event self then Returned else Running, self, drv, [])"
| "rabbitmq_test_send_message_test (env # envs) self drv =
     (if stop_event self then (Returned, self, drv, [])
      else case rabbitmq_send_cycle env self drv of
             (Inl e, self', drv', evs) \<Rightarrow> (Raised e, self', drv', evs)
           | (Inr u, self', drv', evs) \<Rightarrow>
               (case rabbitmq_test_send_message_test envs self' drv' of
                  (st, self'', drv'', evs') \<Rightarrow> (st, self'', drv'', evs @ evs')))"

text \<open>
  The callback of \<open>read_message_test\<close>, run once per delivered message: it logs and
  writes 1.
\<close>

definition callback :: "event list" where
  "callback = [Log INFO ''Received message'', MetricSet 1]"

text \<open>
  One iteration of \<open>read_message_test\<close>. On the normal path there is no sleep: when
  \<open>start_consuming\<close> returns the loop starts over at once. The status is \<open>Running\<close> when
  the iteration is over and the loop goes on.
\<close>

definition rabbitmq_read_cycle ::
  "amqp_env \<Rightarrow> test_obj \<Rightarrow> RabbitMQConnection
     \<Rightarrow> status \<times> test_obj \<times> RabbitMQConnection \<times> event list" where
  "rabbitmq_read_cycle env self drv =
     (case RabbitMQConnection_get_connection (amqp_connect env) drv of
        (got, drv', evs) \<Rightarrow>
          (let handler = (\<lambda>evs1.
                 case andthen (emit (Log ERROR ''Error reading message'')) (\<lambda>u.
                      andthen (emit (MetricSet 0)) (\<lambda>u.
                      sleep_for (check_interval self))) of
                   (Inl e, evs2) \<Rightarrow> (Raised e, self, drv', evs1 @ evs2)
                 | (Inr u, evs2) \<Rightarrow> (Running, self, drv', evs1 @ evs2))
           in case andthen (got, evs) (\<lambda>connection.
                   andthen (deref connection) (\<lambda>c.
                   andthen (lib_call c Channel (channel_r env)) (\<lambda>channel.
                   andthen (lib_call c (QueueDeclare queue) (queue_declare_r env)) (\<lambda>u.
                   andthen (lib_call c (BasicConsume queue) (basic_consume_r env)) (\<lambda>u.
                   ret c))))) of
                (Inl err, evs1) \<Rightarrow> handler evs1
              | (Inr c, evs1) \<Rightarrow>
                  (case consume_r env of
                     (n, fin) \<Rightarrow>
                       (let evs2 = evs1 @ [Call c StartConsuming] @ concat (replicate n callback)
                        in case fin of
                             Blocks \<Rightarrow> (Blocked, self, drv', evs2)
                           | Stops \<Rightarrow> (Running, self, drv', evs2)
                           | Fails err \<Rightarrow> handler evs2))))"

fun rabbitmq_test_read_message_test ::
  "amqp_env list \<Rightarrow> test_obj \<Rightarrow> RabbitMQConnection
     \<Rightarrow> status \<times> test_obj \<times> RabbitMQConnection \<times> event list" where
  "rabbitmq_test_read_message_test [] self drv =
     (if stop_event self then Returned else Running, self, drv, [])"
| "rabbitmq_test_read_message_test (env # envs) self drv =
     (if stop_event self then (Returned, self, drv, [])
      else case rabbitmq_read_cycle env self drv of
             (Running, self', drv', evs) \<Rightarrow>
               (case rabbitmq_test_read_message_test envs self' drv' of
                  (st, self'', drv'', evs') \<Rightarrow> (st, self'', drv'', evs @ evs'))
           | (st, self', drv', evs) \<Rightarrow> (st, self', drv', evs))"

text \<open>The values a run wrote to the gauge, in order.\<close>

fun metric_writes :: "event list \<Rightarrow> int list" where
  "metric_writes [] = []"
| "metric_writes (MetricSet v # evs) = v # metric_writes evs"
| "metric_writes (_ # evs) = metric_writes evs"

section \<open>Start-up (main.py)\<close>

text \<open>
  The modules of the package \<open>src\<close> and the four classes whose name is the module name
  followed by \<open>_test\<close>.
\<close>

datatype module = Mod_base | Mod_config | Mod_logger | Mod_mysql | Mod_postgresql | Mod_redis | Mod_rabbitmq

datatype kind = MySQL | PostgreSQL | Redis | RabbitMQ

text \<open>
  \<open>importlib.import_module(f'src.{service_type}')\<close>: the package holds exactly the
  modules above. A value that is not a string formats to text such as \<open>None\<close> or \<open>12\<close>,
  which names none of them.
\<close>

definition import_module :: "pyval \<Rightarrow> exn + module" where
  "import_module service_type =
     (case service_type of
        PStr s \<Rightarrow>
          if s = ''mysql'' then Inr Mod_mysql
          else if s = ''postgresql'' then Inr Mod_postgresql
          else if s = ''redis'' then Inr Mod_redis
          else if s = ''rabbitmq'' then Inr Mod_rabbitmq
          else if s = ''base'' then Inr Mod_base
          else if s = ''config'' then Inr Mod_config
          else if s = ''logger'' then Inr Mod_logger
          else Inl ModuleNotFoundError
      | _ \<Rightarrow> Inl ModuleNotFoundError)"

text \<open>\<open>getattr(module, f'{service_type}_test')\<close>.\<close>

fun getattr_test :: "module \<Rightarrow> exn + kind" where
  "getattr_test Mod_mysql = Inr MySQL"
| "getattr_test Mod_postgresql = Inr PostgreSQL"
| "getattr_test Mod_redis = Inr Redis"
| "getattr_test Mod_rabbitmq = Inr RabbitMQ"
| "getattr_test _ = Inl AttributeError"

text \<open>
  \<open>int(x)\<close> on a configuration value. On a \<open>str\<close> the result is whatever Python's
  own reader of integer literals gives (blanks around the text, a sign, digits, digit
  separators, the digit limit of the running version): \<open>str_int\<close> stands for that
  reader, \<open>None\<close> where \<open>int\<close> raises \<open>ValueError\<close>. Every function that reaches
  \<open>int\<close> takes it as its first argument.
\<close>

type_synonym str_int = "string \<Rightarrow> int option"

fun py_int :: "str_int \<Rightarrow> pyval \<Rightarrow> exn + int" where
  "py_int str_int (PInt i) = Inr i"
| "py_int str_int (PBool b) = Inr (if b then 1 else 0)"
| "py_int str_int (PStr s) = (case str_int s of None \<Rightarrow> Inl ValueError | Some i \<Rightarrow> Inr i)"
| "py_int str_int _ = Inl TypeError"

text \<open>
  Objects of the connection classes live in a heap; an address is an index. Each class
  keeps its \<open>_instance\<close> attribute, an address or \<open>None\<close>. \<open>Partial\<close> is an object that
  \<open>__new__\<close> allocated and stored in \<open>_instance\<close> but did not finish initialising,
  with the attributes set so far.
\<close>

datatype obj =
    Partial kind "(string \<times> pyval) list"
  | MySQLObj MySQLConnection
  | PostgreSQLObj PostgreSQLConnection
  | RedisObj RedisConnection
  | RabbitMQObj RabbitMQConnection

record process =
  heap :: "obj list"
  instances :: "kind \<Rightarrow> nat option"

definition no_instances :: "kind \<Rightarrow> nat option" where
  "no_instances k = None"

definition fresh_process :: process where
  "fresh_process = \<lparr>heap = [], instances = no_instances\<rparr>"

text \<open>\<open>cls._instance = super().__new__(cls)\<close>: allocate and record the address.\<close>

definition allocate :: "kind \<Rightarrow> process \<Rightarrow> nat \<times> process" where
  "allocate k st =
     (length (heap st),
      st\<lparr>heap := heap st @ [Partial k []], instances := (instances st)(k := Some (length (heap st)))\<rparr>)"

definition store :: "nat \<Rightarrow> obj \<Rightarrow> process \<Rightarrow> process" where
  "store a ob st = st\<lparr>heap := (heap st)[a := ob]\<rparr>"

text \<open>
  \<open>MySQLConnection.__new__\<close>: when \<open>_instance\<close> is set it is returned and the arguments are
  not looked at; otherwise a new object is stored in \<open>_instance\<close> and then initialised
  from the arguments.
\<close>

definition MySQLConnection_new :: "process \<Rightarrow> pyval \<Rightarrow> pyval \<Rightarrow> pyval \<Rightarrow> (exn + nat) \<times> process" where
  "MySQLConnection_new st authentication fqdn port =
     (case instances st MySQL of
        Some a \<Rightarrow> (Inr a, st)
      | None \<Rightarrow>
          (case allocate MySQL st of
             (a, st1) \<Rightarrow>
               (case py_get authentication ''username'' PNone of
                  Inl e \<Rightarrow> (Inl e, st1)
                | Inr username \<Rightarrow>
               (case py_get authentication ''password'' PNone of
                  Inl e \<Rightarrow> (Inl e, store a (Partial MySQL [(''username'', username)]) st1)
                | Inr password \<Rightarrow>
               (case py_get authentication ''db'' PNone of
                  Inl e \<Rightarrow>
                    (Inl e, store a (Partial MySQL [(''username'', username), (''password'', password)]) st1)
                | Inr database \<Rightarrow>
                    (Inr a, store a (MySQLObj \<lparr>my_username = username, my_password = password,
                        my_database = database, my_fqdn = fqdn, my_port = port,
                        my_connection = None\<rparr>) st1))))))"

definition PostgreSQLConnection_new :: "process \<Rightarrow> pyval \<Rightarrow> pyval \<Rightarrow> pyval \<Rightarrow> (exn + nat) \<times> process" where
  "PostgreSQLConnection_new st authentication fqdn port =
     (case instances st PostgreSQL of
        Some a \<Rightarrow> (Inr a, st)
      | None \<Rightarrow>
          (case allocate PostgreSQL st of
             (a, st1) \<Rightarrow>
               (case py_get authentication ''username'' PNone of
                  Inl e \<Rightarrow> (Inl e, st1)
                | Inr username \<Rightarrow>
               (case py_get authentication ''password'' PNone of
                  Inl e \<Rightarrow> (Inl e, store a (Partial PostgreSQL [(''username'', username)]) st1)
                | Inr password \<Rightarrow>
               (case py_get authentication ''db'' PNone of
                  Inl e \<Rightarrow>
                    (Inl e, store a (Partial PostgreSQL [(''username'', username), (''password'', password)]) st1)
                | Inr database \<Rightarrow>
                    (Inr a, store a (PostgreSQLObj \<lparr>pg_username = username, pg_password = password,
                        pg_database = database, pg_fqdn = fqdn, pg_port = port,
                        pg_connection = None\<rparr>) st1))))))"

text \<open>\<open>RedisConnection.__new__\<close>: \<open>db\<close> is \<open>int(authentication.get("db", 0))\<close>.\<close>

definition RedisConnection_new :: "str_int \<Rightarrow> process \<Rightarrow> pyval \<Rightarrow> pyval \<Rightarrow> pyval \<Rightarrow> (exn + nat) \<times> process" where
  "RedisConnection_new str_int st authentication fqdn port =
     (case instances st Redis of
        Some a \<Rightarrow> (Inr a, st)
      | None \<Rightarrow>
          (case allocate Redis st of
             (a, st1) \<Rightarrow>
               (case py_get authentication ''password'' PNone of
                  Inl e \<Rightarrow> (Inl e, st1)
                | Inr password \<Rightarrow>
               (case py_get authentication ''db'' (PInt 0) of
                  Inl e \<Rightarrow> (Inl e, store a (Partial Redis [(''password'', password)]) st1)
                | Inr dbv \<Rightarrow>
               (case py_int str_int dbv of
                  Inl e \<Rightarrow> (Inl e, store a (Partial Redis [(''password'', password)]) st1)
                | Inr db \<Rightarrow>
                    (Inr a, store a (RedisObj \<lparr>rd_password = password, rd_db = db,
                        rd_fqdn = fqdn, rd_port = port, rd_connection = None\<rparr>) st1))))))"

definition RabbitMQConnection_new :: "process \<Rightarrow> pyval \<Rightarrow> pyval \<Rightarrow> pyval \<Rightarrow> (exn + nat) \<times> process" where
  "RabbitMQConnection_new st authentication fqdn port =
     (case instances st RabbitMQ of
        Some a \<Rightarrow> (Inr a, st)
      | None \<Rightarrow>
          (case allocate RabbitMQ st of
             (a, st1) \<Rightarrow>
               (case py_get authentication ''username'' PNone of
                  Inl e \<Rightarrow> (Inl e, st1)
                | Inr username \<Rightarrow>
               (case py_get authentication ''password'' PNone of
                  Inl e \<Rightarrow> (Inl e, store a (Partial RabbitMQ [(''username'', username)]) st1)
                | Inr password \<Rightarrow>
                    (Inr a, store a (RabbitMQObj \<lparr>rb_username = username, rb_password = password,
                        rb_fqdn = fqdn, rb_port = port, rb_connection = None\<rparr>) st1)))))"

text \<open>
  The constructors of the four test classes: each builds its connection holder through
  the class's \<open>__new__\<close> and keeps the address, with \<open>check_interval\<close>, a fresh
  \<open>stop_event\<close> and \<open>result = False\<close>.
\<close>

record tester =
  t_kind :: kind
  t_driver :: nat
  t_state :: test_obj

definition test_init ::
  "str_int \<Rightarrow> kind \<Rightarrow> process \<Rightarrow> pyval \<Rightarrow> pyval \<Rightarrow> pyval \<Rightarrow> pyval \<Rightarrow> (exn + tester) \<times> process" where
  "test_init str_int cls st authentication fqdn port interval =
     (case (case cls of
              MySQL \<Rightarrow> MySQLConnection_new st authentication fqdn port
            | PostgreSQL \<Rightarrow> PostgreSQLConnection_new st authentication fqdn port
            | Redis \<Rightarrow> RedisConnection_new str_int st authentication fqdn port
            | RabbitMQ \<Rightarrow> RabbitMQConnection_new st authentication fqdn port) of
        (Inl e, st') \<Rightarrow> (Inl e, st')
      | (Inr a, st') \<Rightarrow>
          (Inr \<lparr>t_kind = cls, t_driver = a,
                t_state = \<lparr>check_interval = interval, stop_event = False, result = False\<rparr>\<rparr>, st'))"

text \<open>
  The label values of a service's gauge child and the threads the orchestrator starts:
  the census thread and, per service, a thread that runs \<open>test\<close> of its test object.
\<close>

record labels =
  lbl_name :: string
  lbl_fqdn :: pyval
  lbl_port :: pyval
  lbl_type :: pyval

datatype thread = CensusThread | ProbeThread tester labels

text \<open>
  \<open>create_monitoring_thread(service, data)\<close>: five \<open>data.get\<close>, the import, the
  \<open>getattr\<close>, the constructor call, then the thread is created and started. Nothing is
  handled here.
\<close>

definition create_monitoring_thread :: "str_int \<Rightarrow> process \<Rightarrow> string \<Rightarrow> pyval \<Rightarrow> (exn + thread) \<times> process" where
  "create_monitoring_thread str_int st service data =
     (case py_get data ''type'' PNone of Inl e \<Rightarrow> (Inl e, st) | Inr service_type \<Rightarrow>
     (case py_get data ''fqdn'' PNone of Inl e \<Rightarrow> (Inl e, st) | Inr fqdn \<Rightarrow>
     (case py_get data ''authentication'' PNone of Inl e \<Rightarrow> (Inl e, st) | Inr authentication \<Rightarrow>
     (case py_get data ''port'' PNone of Inl e \<Rightarrow> (Inl e, st) | Inr port \<Rightarrow>
     (case py_get data ''check_interval'' PNone of Inl e \<Rightarrow> (Inl e, st) | Inr interval \<Rightarrow>
     (case import_module service_type of Inl e \<Rightarrow> (Inl e, st) | Inr module \<Rightarrow>
     (case getattr_test module of Inl e \<Rightarrow> (Inl e, st) | Inr cls \<Rightarrow>
     (case test_init str_int cls st authentication fqdn port interval of
        (Inl e, st') \<Rightarrow> (Inl e, st')
      | (Inr module_method, st') \<Rightarrow>
          (Inr (ProbeThread module_method
                  \<lparr>lbl_name = service, lbl_fqdn = fqdn, lbl_port = port, lbl_type = service_type\<rparr>),
           st')))))))))"

text \<open>
  The loop \<open>for service, data in services.items()\<close> of \<open>trigger_monitoring\<close>, with the
  thread pool built so far. When the loop is over the function joins the threads of the
  pool, the census thread first, which never ends: \<open>Blocked\<close>.
\<close>

fun start_all ::
  "str_int \<Rightarrow> (string \<times> pyval) list \<Rightarrow> thread list \<Rightarrow> process \<Rightarrow> status \<times> thread list \<times> process" where
  "start_all str_int [] thread_pool st = (Blocked, thread_pool, st)"
| "start_all str_int ((service, data) # rest) thread_pool st =
     (case create_monitoring_thread str_int st service data of
        (Inl e, st') \<Rightarrow> (Raised e, thread_pool, st')
      | (Inr thread, st') \<Rightarrow> start_all str_int rest (thread_pool @ [thread]) st')"

text \<open>
  \<open>trigger_monitoring\<close>: read \<open>config.services\<close>, start the census thread, then iterate
  over \<open>services.items()\<close>. The result is how the function ends, the threads started,
  the process state and the events of the configuration loader.
\<close>

definition trigger_monitoring ::
  "str_int \<Rightarrow> filesystem \<Rightarrow> process \<Rightarrow> status \<times> thread list \<times> process \<times> event list" where
  "trigger_monitoring str_int fs st =
     (case services fs of
        (Inl e, evs) \<Rightarrow> (Raised e, [], st, evs)
      | (Inr svcs, evs) \<Rightarrow>
          (let thread_pool = [CensusThread]
           in case py_items svcs of
                Inl e \<Rightarrow> (Raised e, thread_pool, st, evs)
              | Inr items \<Rightarrow>
                  (case start_all str_int items thread_pool st of
                     (out, pool, st') \<Rightarrow> (out, pool, st', evs))))"

text \<open>The probe threads of a pool, and the names of the services they belong to.\<close>

fun probes :: "thread list \<Rightarrow> (tester \<times> labels) list" where
  "probes [] = []"
| "probes (ProbeThread t l # ths) = (t, l) # probes ths"
| "probes (CensusThread # ths) = probes ths"

definition started_services :: "thread list \<Rightarrow> string list" where
  "started_services pool = map (\<lambda>p. lbl_name (snd p)) (probes pool)"

section \<open>Observations on traces and on the process\<close>

text \<open>A trace in which every value written to the gauge is 0 or 1.\<close>

definition binary :: "event list \<Rightarrow> bool" where
  "binary evs = (set (metric_writes evs) \<subseteq> {0, 1})"

text \<open>The connections on which a run made calls, in order.\<close>

fun call_conns :: "event list \<Rightarrow> conn list" where
  "call_conns [] = []"
| "call_conns (Call c k # evs) = c # call_conns evs"
| "call_conns (_ # evs) = call_conns evs"

text \<open>The calls a run made on its connections, in order.\<close>

fun calls_made :: "event list \<Rightarrow> call list" where
  "calls_made [] = []"
| "calls_made (Call c k # evs) = k # calls_made evs"
| "calls_made (_ # evs) = calls_made evs"

text \<open>
  The class of a heap object, and the processes in which every \<open>_instance\<close> attribute
  points to an object of its own class.
\<close>

fun kind_of :: "obj \<Rightarrow> kind" where
  "kind_of (Partial k attrs) = k"
| "kind_of (MySQLObj d) = MySQL"
| "kind_of (PostgreSQLObj d) = PostgreSQL"
| "kind_of (RedisObj d) = Redis"
| "kind_of (RabbitMQObj d) = RabbitMQ"

definition points_to_own_class :: "process \<Rightarrow> kind \<Rightarrow> bool" where
  "points_to_own_class st k =
     (case instances st k of
        None \<Rightarrow> True
      | Some a \<Rightarrow> a < length (heap st) \<and> kind_of (heap st ! a) = k)"

definition wf_process :: "process \<Rightarrow> bool" where
  "wf_process st =
     (points_to_own_class st MySQL \<and> points_to_own_class st PostgreSQL
      \<and> points_to_own_class st Redis \<and> points_to_own_class st RabbitMQ)"

text \<open>For each probe thread of a pool, its service name and the address of its connection holder.\<close>

fun bound_drivers :: "thread list \<Rightarrow> (string \<times> nat) list" where
  "bound_drivers [] = []"
| "bound_drivers (ProbeThread t l # ths) = (lbl_name l, t_driver t) # bound_drivers ths"
| "bound_drivers (CensusThread # ths) = bound_drivers ths"

text \<open>
  The keyword arguments a connection holder passes to its client library; a partially
  initialised object has none yet.
\<close>

fun holder_args :: "obj \<Rightarrow> (string \<times> pyval) list" where
  "holder_args (Partial k attrs) = []"
| "holder_args (MySQLObj d) = mysql_kwargs d"
| "holder_args (PostgreSQLObj d) = postgresql_kwargs d"
| "holder_args (RedisObj d) = redis_kwargs d"
| "holder_args (RabbitMQObj d) = rabbitmq_kwargs d"

text \<open>The type string under which start-up finds a class: the name of its module.\<close>

fun type_string :: "kind \<Rightarrow> string" where
  "type_string MySQL = ''mysql''"
| "type_string PostgreSQL = ''postgresql''"
| "type_string Redis = ''redis''"
| "type_string RabbitMQ = ''rabbitmq''"

text \<open>The entry of the first service of a configuration that declares a given type.\<close>

fun first_of_type :: "pyval \<Rightarrow> (string \<times> pyval) list \<Rightarrow> pyval option" where
  "first_of_type ty [] = None"
| "first_of_type ty ((service, data) # rest) =
     (if py_get data ''type'' PNone = Inr ty then Some data else first_of_type ty rest)"

text \<open>A field of a configuration entry, \<open>None\<close> where the entry has no fields.\<close>

definition entry :: "pyval \<Rightarrow> string \<Rightarrow> pyval \<Rightarrow> pyval" where
  "entry d k dflt = (case py_get d k dflt of Inr v \<Rightarrow> v | Inl e \<Rightarrow> PNone)"

text \<open>
  Written from the claim's words, for comparison with what the constructors build: the
  keyword arguments of a connection holder of class \<open>k\<close> \<^emph>\<open>constructed from the service's
  own fqdn, port and credentials\<close>, the service being given by its configuration entry.
\<close>

definition declared_kwargs :: "str_int \<Rightarrow> kind \<Rightarrow> pyval \<Rightarrow> (string \<times> pyval) list" where
  "declared_kwargs str_int k data =
     (let fqdn = entry data ''fqdn'' PNone;
          port = entry data ''port'' PNone;
          auth = entry data ''authentication'' PNone
      in case k of
           MySQL \<Rightarrow>
             [(''user'', entry auth ''username'' PNone), (''password'', entry auth ''password'' PNone),
              (''host'', fqdn), (''port'', port), (''database'', entry auth ''db'' PNone)]
         | PostgreSQL \<Rightarrow>
             [(''user'', entry auth ''username'' PNone), (''password'', entry auth ''password'' PNone),
              (''host'', fqdn), (''port'', port), (''database'', entry auth ''db'' PNone)]
         | Redis \<Rightarrow>
             [(''host'', fqdn), (''port'', port),
              (''db'', (case py_int str_int (entry auth ''db'' (PInt 0)) of
                         Inr i \<Rightarrow> PInt i
                       | Inl e \<Rightarrow> PNone)),
              (''password'', entry auth ''password'' PNone)]
         | RabbitMQ \<Rightarrow>
             [(''host'', fqdn), (''port'', port),
              (''username'', entry auth ''username'' PNone),
              (''password'', entry auth ''password'' PNone)])"

text \<open>
  A probe thread is \<open>built_from\<close> a configuration when its holder is the instance of its
  class, its declared type is the type string of that class, and the holder carries the
  keyword arguments declared by the first service of that type.
\<close>

definition built_from :: "str_int \<Rightarrow> (string \<times> pyval) list \<Rightarrow> process \<Rightarrow> tester \<times> labels \<Rightarrow> bool" where
  "built_from str_int items st p =
     (instances st (t_kind (fst p)) = Some (t_driver (fst p))
      \<and> lbl_type (snd p) = PStr (type_string (t_kind (fst p)))
      \<and> (case first_of_type (lbl_type (snd p)) items of
            None \<Rightarrow> False
          | Some d \<Rightarrow>
              holder_args (heap st ! t_driver (fst p)) =
                declared_kwargs str_int (t_kind (fst p)) d))"

text \<open>
  \<open>extends st st'\<close>: every \<open>_instance\<close> set in \<open>st\<close> is the same in \<open>st'\<close> and every object
  of \<open>st\<close> is unchanged in \<open>st'\<close>. \<open>grows_to k st st'\<close>: moreover \<open>st'\<close> is well formed and
  the \<open>_instance\<close> of class \<open>k\<close> is the first new address.
\<close>

definition extends :: "process \<Rightarrow> process \<Rightarrow> bool" where
  "extends st st' =
     ((\<forall>k a. instances st k = Some a \<longrightarrow> instances st' k = Some a)
      \<and> length (heap st) \<le> length (heap st')
      \<and> (\<forall>a < length (heap st). heap st' ! a = heap st ! a))"

definition grows_to :: "kind \<Rightarrow> process \<Rightarrow> process \<Rightarrow> bool" where
  "grows_to k st st' =
     (wf_process st' \<and> extends st st' \<and> instances st' k = Some (length (heap st)))"

section \<open>Sample inputs\<close>

text \<open>
  Concrete environments and objects on which the theorems below are instantiated: a
  library that refuses every connection with a given exception, one that hands out a
  given connection, and answers of a healthy database and cache.
\<close>

text \<open>
  A reader of integer literals for the sample configurations: what \<open>int\<close> gives on
  ASCII text shorter than the interpreter's digit limit. Blanks around the text are
  dropped, a sign may come first, and a single underscore may stand between two digits.
\<close>

definition blank :: "char \<Rightarrow> bool" where
  "blank c = ((of_char c :: nat) \<in> {9, 10, 11, 12, 13, 28, 29, 30, 31, 32})"

definition digit :: "char \<Rightarrow> bool" where
  "digit c = ((48::nat) \<le> of_char c \<and> of_char c \<le> (57::nat))"

fun read_digits :: "nat \<Rightarrow> string \<Rightarrow> nat option" where
  "read_digits acc [] = Some acc"
| "read_digits acc [c] = (if digit c then Some (acc * 10 + (of_char c - 48)) else None)"
| "read_digits acc (c # d # cs) =
     (if digit c then read_digits (acc * 10 + (of_char c - 48)) (d # cs)
      else if c = CHR ''_'' \<and> digit d then read_digits acc (d # cs)
      else None)"

definition decimal :: "string \<Rightarrow> nat option" where
  "decimal s = (case s of [] \<Rightarrow> None | c # cs \<Rightarrow> if digit c then read_digits 0 s else None)"

definition ascii_int :: str_int where
  "ascii_int s =
     (case dropWhile blank (rev (dropWhile blank (rev s))) of
        [] \<Rightarrow> None
      | c # cs \<Rightarrow>
          if c = CHR ''-'' then map_option (\<lambda>n. - int n) (decimal cs)
          else if c = CHR ''+'' then map_option int (decimal cs)
          else map_option int (decimal (c # cs)))"

definition refuse :: "exn \<Rightarrow> lib_connect" where
  "refuse e args = Inl e"

definition accept :: "conn \<Rightarrow> lib_connect" where
  "accept c args = Inr c"

definition open_conn :: conn where
  "open_conn = \<lparr>conn_id = 1, is_closed = False\<rparr>"

definition fresh_conn :: conn where
  "fresh_conn = \<lparr>conn_id = 2, is_closed = False\<rparr>"

definition closed_conn :: conn where
  "closed_conn = \<lparr>conn_id = 1, is_closed = True\<rparr>"

definition mysql0 :: MySQLConnection where
  "mysql0 = \<lparr>my_username = PStr ''monitor'', my_password = PStr ''secret'',
             my_database = PStr ''mysql'', my_fqdn = PStr ''db1.internal'', my_port = PInt 3306,
             my_connection = None\<rparr>"

definition postgresql0 :: PostgreSQLConnection where
  "postgresql0 = \<lparr>pg_username = PStr ''monitor'', pg_password = PStr ''secret'',
             pg_database = PStr ''postgres'', pg_fqdn = PStr ''pg1.internal'', pg_port = PInt 5432,
             pg_connection = None\<rparr>"

definition redis0 :: RedisConnection where
  "redis0 = \<lparr>rd_password = PStr ''secret'', rd_db = 0, rd_fqdn = PStr ''cache1.internal'',
             rd_port = PInt 6379, rd_connection = None\<rparr>"

definition rabbitmq0 :: RabbitMQConnection where
  "rabbitmq0 = \<lparr>rb_username = PStr ''guest'', rb_password = PStr ''guest'',
             rb_fqdn = PStr ''mq1.internal'', rb_port = PInt 5672, rb_connection = None\<rparr>"

definition test0 :: test_obj where
  "test0 = \<lparr>check_interval = PInt 1, stop_event = False, result = False\<rparr>"

definition answers :: "'a \<Rightarrow> conn \<Rightarrow> exn + 'a" where
  "answers x c = Inr x"

definition fails :: "exn \<Rightarrow> conn \<Rightarrow> exn + 'a" where
  "fails e c = Inl e"

text \<open>A database that cannot be reached, and one that answers \<open>SELECT 1\<close> with the row (1).\<close>

definition sql_down :: sql_env where
  "sql_down = \<lparr>sql_connect = refuse MySQLError, cursor_r = fails MySQLError,
                execute_r = fails MySQLError, fetchone_r = fails MySQLError\<rparr>"

definition sql_up :: sql_env where
  "sql_up = \<lparr>sql_connect = accept open_conn, cursor_r = answers (),
              execute_r = answers (), fetchone_r = answers (Some [1])\<rparr>"

definition sql_up_again :: sql_env where
  "sql_up_again = \<lparr>sql_connect = accept fresh_conn, cursor_r = answers (),
              execute_r = answers (), fetchone_r = answers (Some [1])\<rparr>"

definition sql_broken :: sql_env where
  "sql_broken = \<lparr>sql_connect = accept open_conn, cursor_r = answers (),
              execute_r = fails MySQLError, fetchone_r = fails MySQLError\<rparr>"

definition pg_down :: sql_env where
  "pg_down = \<lparr>sql_connect = refuse Psycopg2Error, cursor_r = fails Psycopg2Error,
               execute_r = fails Psycopg2Error, fetchone_r = fails Psycopg2Error\<rparr>"

text \<open>
  A cache on which every step works, and one on which \<open>delete\<close> returns normally but
  the key is still there afterwards.
\<close>

definition redis_up :: redis_env where
  "redis_up = \<lparr>redis_connect = accept open_conn, set_r = Inr (),
                get_key_r = Inr (Some ''DEVOPS_TEST_VALUE''), incr_r = Inr (),
                get_counter_r = Inr (Some ''1''), delete_key_r = Inr (),
                delete_counter_r = Inr (), exists_r = Inr 0\<rparr>"

definition redis_delete_noop :: redis_env where
  "redis_delete_noop = redis_up\<lparr>exists_r := Inr 1\<rparr>"

definition amqp_up :: amqp_env where
  "amqp_up = \<lparr>amqp_connect = accept open_conn, channel_r = Inr (), queue_declare_r = Inr (),
               basic_publish_r = Inr (), basic_consume_r = Inr (), consume_r = (2, Fails AMQPError)\<rparr>"

definition amqp_down :: amqp_env where
  "amqp_down = \<lparr>amqp_connect = refuse AMQPError, channel_r = Inl AMQPError,
               queue_declare_r = Inl AMQPError, basic_publish_r = Inl AMQPError,
               basic_consume_r = Inl AMQPError, consume_r = (0, Fails AMQPError)\<rparr>"

text \<open>Connection holders whose cached connection is closed, or open.\<close>

definition postgresql_stale :: PostgreSQLConnection where
  "postgresql_stale = postgresql0\<lparr>pg_connection := Some closed_conn\<rparr>"

definition redis_cached :: RedisConnection where
  "redis_cached = redis0\<lparr>rd_connection := Some open_conn\<rparr>"

definition rabbitmq_stale :: RabbitMQConnection where
  "rabbitmq_stale = rabbitmq0\<lparr>rb_connection := Some closed_conn\<rparr>"

definition rabbitmq_cached :: RabbitMQConnection where
  "rabbitmq_cached = rabbitmq0\<lparr>rb_connection := Some open_conn\<rparr>"

definition mysql_cached :: MySQLConnection where
  "mysql_cached = mysql0\<lparr>my_connection := Some open_conn\<rparr>"

text \<open>A test object after a successful cycle.\<close>

definition test_ok :: test_obj where
  "test_ok = test0\<lparr>result := True\<rparr>"

text \<open>Configuration files: none, an unparsable one, and one holding a given document.\<close>

definition missing_config :: filesystem where
  "missing_config p = Inl OSError"

definition malformed_config :: filesystem where
  "malformed_config p = Inl YAMLError"

definition config_with :: "pyval \<Rightarrow> filesystem" where
  "config_with doc p = (if p = ''/config/conf.yml'' then Inr doc else Inl OSError)"

definition service_entry :: "string \<Rightarrow> string \<Rightarrow> int \<Rightarrow> pyval \<Rightarrow> pyval" where
  "service_entry ty host port_no db =
     PDict [(''type'', PStr ty), (''fqdn'', PStr host),
            (''authentication'',
               PDict [(''username'', PStr ''monitor''), (''password'', PStr ''secret''),
                      (''db'', db)]),
            (''port'', PInt port_no), (''check_interval'', PInt 1)]"

text \<open>Two MySQL services on different hosts.\<close>

definition two_mysql :: pyval where
  "two_mysql =
     PDict [(''services'',
       PDict [(''db1'', service_entry ''mysql'' ''db1.internal'' 3306 (PStr ''app'')),
              (''db2'', service_entry ''mysql'' ''db2.internal'' 3307 (PStr ''app''))])]"

text \<open>A service of an unknown type listed first, a Redis service after it.\<close>

definition unknown_then_redis :: pyval where
  "unknown_then_redis =
     PDict [(''services'',
       PDict [(''legacy'', service_entry ''oracle'' ''ora.internal'' 1521 (PStr ''app'')),
              (''cache1'', service_entry ''redis'' ''cache1.internal'' 6379 (PStr '' 3''))])]"

text \<open>
  A Redis service whose \<open>db\<close> is the text \<open>' 3'\<close>, then a service of an unknown type,
  then a MySQL service.
\<close>

definition redis_unknown_mysql :: pyval where
  "redis_unknown_mysql =
     PDict [(''services'',
       PDict [(''cache1'', service_entry ''redis'' ''cache1.internal'' 6379 (PStr '' 3'')),
              (''legacy'', service_entry ''oracle'' ''ora.internal'' 1521 (PStr ''app'')),
              (''db1'', service_entry ''mysql'' ''db1.internal'' 3306 (PStr ''app''))])]"

text \<open>A MySQL, a Redis and a second MySQL service.\<close>

definition mysql_redis_mysql :: pyval where
  "mysql_redis_mysql =
     PDict [(''services'',
       PDict [(''db1'', service_entry ''mysql'' ''db1.internal'' 3306 (PStr ''app'')),
              (''cache1'', service_entry ''redis'' ''cache1.internal'' 6379 (PStr '' 3'')),
              (''db2'', service_entry ''mysql'' ''db2.internal'' 3307 (PStr ''app''))])]"

section \<open>Properties of the configuration loader\<close>

text \<open>
  Claim C10. On every call, \<open>Config.conf\<close> reads the fixed path \<open>/config/conf.yml\<close>:
  the only file it opens is that one, whatever the file system holds; what it returns is
  the document found there, or the empty dictionary when opening or parsing that file
  raises; and its result does not change when the content found at \<open>conf-test.yml\<close> (or
  at any other path) changes. The test-file path assigned first is overwritten and never
  used.
\<close>

theorem conf_reads_production_path:
  "opened_paths (snd (conf fs)) = [''/config/conf.yml'']
   \<and> ''conf-test.yml'' \<notin> set (opened_paths (snd (conf fs)))
   \<and> conf (fs(''conf-test.yml'' := x)) = conf fs
   \<and> conf (\<lambda>p. if p = ''/config/conf.yml'' then fs p else other p) = conf fs
   \<and> (fs ''/config/conf.yml'' = Inr doc \<longrightarrow>
        conf fs = (doc, [Opened ''/config/conf.yml'', Log INFO ''Configuration loaded'']))
   \<and> (fs ''/config/conf.yml'' = Inl e \<longrightarrow>
        conf fs = (PDict [], [Opened ''/config/conf.yml'', Log CRITICAL ''Failed to load configuration'']))"
  by (simp add: conf_def Let_def split: sum.splits)

theorem conf_reads_production_path_witness:
  "conf (config_with two_mysql) =
     (two_mysql, [Opened ''/config/conf.yml'', Log INFO ''Configuration loaded''])
   \<and> conf (config_with unknown_then_redis) =
     (unknown_then_redis, [Opened ''/config/conf.yml'', Log INFO ''Configuration loaded''])
   \<and> conf malformed_config =
     (PDict [], [Opened ''/config/conf.yml'', Log CRITICAL ''Failed to load configuration''])"
  using conf_reads_production_path [of "config_with two_mysql" _ _ two_mysql]
    conf_reads_production_path [of "config_with unknown_then_redis" _ _ unknown_then_redis]
    conf_reads_production_path [of malformed_config _ _ _ YAMLError]
  by (simp add: config_with_def malformed_config_def)

section \<open>Properties of the connection holders\<close>

text \<open>
  Claim C5, as amended. When the client library's connect call raises:
  \<open>RedisConnection.connect\<close> and \<open>RabbitMQConnection.connect\<close> never raise (they handle every
  \<open>Exception\<close>); \<open>MySQLConnection.connect\<close> and \<open>PostgreSQLConnection.connect\<close> handle exactly
  the error class of their own library and let every other exception through. Whenever
  the error is handled it is logged at level ERROR, and in every case the object is left
  as it was, so a connection that was unset stays unset and \<open>get_connection\<close> then
  returns \<open>None\<close>.
\<close>

theorem connect_error_handling:
  assumes "lib1 (mysql_kwargs my) = Inl e1"
      and "lib2 (postgresql_kwargs pg) = Inl e2"
      and "lib3 (redis_kwargs rd) = Inl e3"
      and "lib4 (rabbitmq_kwargs rb) = Inl e4"
  shows "MySQLConnection_connect lib1 my =
           (if e1 = MySQLError
            then (Inr (), my, [LibConnect (mysql_kwargs my), Log ERROR ''Error connecting to MySQL''])
            else (Inl e1, my, [LibConnect (mysql_kwargs my)]))
       \<and> PostgreSQLConnection_connect lib2 pg =
           (if e2 = Psycopg2Error
            then (Inr (), pg, [LibConnect (postgresql_kwargs pg), Log ERROR ''Error connecting to PostgreSQL''])
            else (Inl e2, pg, [LibConnect (postgresql_kwargs pg)]))
       \<and> RedisConnection_connect lib3 rd =
           (Inr (), rd, [LibConnect (redis_kwargs rd), Log ERROR ''Error connecting to Redis''])
       \<and> RabbitMQConnection_connect lib4 rb =
           (Inr (), rb, [LibConnect (rabbitmq_kwargs rb), Log ERROR ''Error connecting to RabbitMQ''])
       \<and> (my_connection my = None \<and> e1 = MySQLError \<longrightarrow>
            fst (MySQLConnection_get_connection lib1 my force) = Inr None)
       \<and> (pg_connection pg = None \<and> e2 = Psycopg2Error \<longrightarrow>
            fst (PostgreSQLConnection_get_connection lib2 pg) = Inr None)
       \<and> (rd_connection rd = None \<longrightarrow> fst (RedisConnection_get_connection lib3 rd) = Inr None)
       \<and> (rb_connection rb = None \<longrightarrow> fst (RabbitMQConnection_get_connection lib4 rb) = Inr None)"
  using assms
  by (simp add: MySQLConnection_connect_def PostgreSQLConnection_connect_def
      RedisConnection_connect_def RabbitMQConnection_connect_def
      MySQLConnection_get_connection_def PostgreSQLConnection_get_connection_def
      RedisConnection_get_connection_def RabbitMQConnection_get_connection_def Let_def)

theorem connect_error_handling_witness:
  "MySQLConnection_connect (refuse MySQLError) mysql0 =
      (Inr (), mysql0, [LibConnect (mysql_kwargs mysql0), Log ERROR ''Error connecting to MySQL''])
   \<and> PostgreSQLConnection_connect (refuse TypeError) postgresql0 =
      (Inl TypeError, postgresql0, [LibConnect (postgresql_kwargs postgresql0)])
   \<and> RedisConnection_connect (refuse TypeError) redis0 =
      (Inr (), redis0, [LibConnect (redis_kwargs redis0), Log ERROR ''Error connecting to Redis''])
   \<and> RabbitMQConnection_connect (refuse AMQPError) rabbitmq0 =
      (Inr (), rabbitmq0, [LibConnect (rabbitmq_kwargs rabbitmq0), Log ERROR ''Error connecting to RabbitMQ''])
   \<and> fst (MySQLConnection_get_connection (refuse MySQLError) mysql0 True) = Inr None"
  using connect_error_handling [of "refuse MySQLError" mysql0 MySQLError "refuse TypeError" postgresql0 TypeError
      "refuse TypeError" redis0 TypeError "refuse AMQPError" rabbitmq0 AMQPError True]
  by (simp add: refuse_def mysql0_def)

text \<open>
  The claim as stated fails for MySQL in both of its parts. \<open>connect\<close> raises when the
  library raises an exception outside \<open>mysql.connector.Error\<close>; and after a handled
  error the cached connection is not unset when one was cached before: a forced
  \<open>get_connection\<close> then hands the old connection back to the caller.
\<close>

theorem mysql_connect_raises_counterexample:
  "fst (MySQLConnection_connect (refuse TypeError) mysql0) = Inl TypeError
   \<and> MySQLConnection_get_connection (refuse MySQLError) mysql_cached True =
       (Inr (Some open_conn), mysql_cached,
        [LibConnect (mysql_kwargs mysql_cached), Log ERROR ''Error connecting to MySQL''])"
  by (simp add: MySQLConnection_get_connection_def MySQLConnection_connect_def refuse_def
      mysql_cached_def Let_def)

section \<open>Counting connection attempts in a trace\<close>

text \<open>
  Only \<open>connect\<close> produces a \<open>LibConnect\<close> event; the statements of the loop bodies
  produce none. The lemmas below carry that through sequencing.
\<close>

lemma connect_attempts_append:
  "connect_attempts (xs @ ys) = connect_attempts xs + connect_attempts ys"
  by (induction xs rule: connect_attempts.induct) simp_all

lemma andthen_Inl: "andthen (Inl e, evs) f = (Inl e, evs)"
  by (simp add: andthen_def)

lemma andthen_Inr: "andthen (Inr x, evs) f = (fst (f x), evs @ snd (f x))"
  by (simp add: andthen_def case_prod_beta)

lemma no_connect_andthen:
  assumes "connect_attempts (snd m) = 0" and "\<And>x. connect_attempts (snd (f x)) = 0"
  shows "connect_attempts (snd (andthen m f)) = 0"
proof (cases m)
  case (Pair r evs)
  then show ?thesis
    using assms by (cases r) (simp_all add: andthen_Inl andthen_Inr connect_attempts_append)
qed

lemma no_connect_basic:
  "connect_attempts (snd (ret a)) = 0"
  "connect_attempts (snd (raise e)) = 0"
  "connect_attempts (snd (emit (Log l s))) = 0"
  "connect_attempts (snd (emit (MetricSet v))) = 0"
  "connect_attempts (snd (lib_call c k r)) = 0"
  "connect_attempts (snd (deref copt)) = 0"
  "connect_attempts (snd (sleep_for x)) = 0"
  "connect_attempts (snd (decode bs)) = 0"
  by (simp_all add: ret_def raise_def emit_def lib_call_def deref_def sleep_for_def decode_def
      split: option.splits sum.splits)

lemma no_connect_sql_exercise:
  "connect_attempts (snd (sql_exercise db env copt)) = 0"
  unfolding sql_exercise_def
  by (intro no_connect_andthen no_connect_basic)
     (auto simp: no_connect_basic intro!: no_connect_andthen split: option.splits list.splits)

lemma no_connect_redis_exercise:
  "connect_attempts (snd (redis_exercise env copt)) = 0"
  unfolding redis_exercise_def
  by (intro no_connect_andthen no_connect_basic)
     (auto simp: no_connect_basic intro!: no_connect_andthen split: option.splits list.splits)

lemma no_connect_record_and_sleep:
  "connect_attempts (snd (record_and_sleep self)) = 0"
  unfolding record_and_sleep_def
  by (intro no_connect_andthen no_connect_basic)


lemma connect_attempts_andthen_left:
  assumes "\<And>x. connect_attempts (snd (f x)) = 0"
  shows "connect_attempts (snd (andthen m f)) = connect_attempts (snd m)"
proof (cases m)
  case (Pair r evs)
  then show ?thesis
    using assms by (cases r) (simp_all add: andthen_Inl andthen_Inr connect_attempts_append)
qed

lemma connect_attempts_callbacks:
  "connect_attempts (concat (replicate n callback)) = 0"
  by (induction n) (simp_all add: callback_def connect_attempts_append)

lemma postgresql_get_connection_attempts:
  "connect_attempts (snd (snd (PostgreSQLConnection_get_connection lib pg))) =
     (if pg_connection pg = None then 1 else 0)"
  by (simp add: PostgreSQLConnection_get_connection_def PostgreSQLConnection_connect_def Let_def
      split: sum.splits)

lemma redis_get_connection_attempts:
  "connect_attempts (snd (snd (RedisConnection_get_connection lib rd))) =
     (if rd_connection rd = None then 1 else 0)"
  by (simp add: RedisConnection_get_connection_def RedisConnection_connect_def Let_def
      split: sum.splits)

lemma rabbitmq_get_connection_attempts:
  "connect_attempts (snd (snd (RabbitMQConnection_get_connection lib rb))) =
     (case rb_connection rb of None \<Rightarrow> 1 | Some c \<Rightarrow> if is_closed c then 1 else 0)"
  by (simp add: RabbitMQConnection_get_connection_def RabbitMQConnection_connect_def Let_def
      split: sum.splits option.splits)

lemma postgresql_cycle_attempts:
  "connect_attempts (snd (snd (snd (postgresql_test_cycle env self drv)))) =
     connect_attempts (snd (snd (PostgreSQLConnection_get_connection (sql_connect env) drv)))"
proof -
  obtain got drv' evs where g:
    "PostgreSQLConnection_get_connection (sql_connect env) drv = (got, drv', evs)"
    by (cases "PostgreSQLConnection_get_connection (sql_connect env) drv") auto
  obtain r evs1 where a: "andthen (got, evs) (sql_exercise ''PostgreSQL'' env) = (r, evs1)"
    by (cases "andthen (got, evs) (sql_exercise ''PostgreSQL'' env)") auto
  have e1: "connect_attempts evs1 = connect_attempts evs"
    using connect_attempts_andthen_left [of "sql_exercise ''PostgreSQL'' env" "(got, evs)"] a
    by (simp add: no_connect_sql_exercise)
  show ?thesis
    using g a e1 no_connect_record_and_sleep
    by (cases r)
       (auto simp: postgresql_test_cycle_def Let_def connect_attempts_append split: prod.splits,
        (metis snd_conv)+)
qed


lemma redis_cycle_attempts:
  "connect_attempts (snd (snd (snd (redis_test_cycle env self drv)))) =
     connect_attempts (snd (snd (RedisConnection_get_connection (redis_connect env) drv)))"
proof -
  obtain got drv' evs where g:
    "RedisConnection_get_connection (redis_connect env) drv = (got, drv', evs)"
    by (cases "RedisConnection_get_connection (redis_connect env) drv") auto
  obtain r evs1 where a: "andthen (got, evs) (redis_exercise env) = (r, evs1)"
    by (cases "andthen (got, evs) (redis_exercise env)") auto
  have e1: "connect_attempts evs1 = connect_attempts evs"
    using connect_attempts_andthen_left [of "redis_exercise env" "(got, evs)"] a
    by (simp add: no_connect_redis_exercise)
  show ?thesis
    using g a e1 no_connect_record_and_sleep
    by (cases r)
       (auto simp: redis_test_cycle_def Let_def connect_attempts_append split: prod.splits,
        (metis snd_conv)+)
qed

lemma no_connect_send_body:
  "connect_attempts (snd (
     andthen (deref connection) (\<lambda>c.
     andthen (lib_call c Channel (channel_r env)) (\<lambda>channel.
     andthen (lib_call c (QueueDeclare queue) (queue_declare_r env)) (\<lambda>u.
     andthen (lib_call c (BasicPublish [] queue rabbitmq_payload) (basic_publish_r env)) (\<lambda>u.
     andthen (emit (Log INFO ''Sent Message'')) (\<lambda>u.
     andthen (emit (MetricSet 1)) (\<lambda>u.
     sleep_for (check_interval self))))))))) = 0"
  by (intro no_connect_andthen no_connect_basic)

lemma no_connect_handler:
  "connect_attempts (snd (
     andthen (emit (Log ERROR msg)) (\<lambda>u.
     andthen (emit (MetricSet 0)) (\<lambda>u.
     sleep_for x)))) = 0"
  by (intro no_connect_andthen no_connect_basic)

lemma no_connect_read_body:
  "connect_attempts (snd (
     andthen (deref connection) (\<lambda>c.
     andthen (lib_call c Channel (channel_r env)) (\<lambda>channel.
     andthen (lib_call c (QueueDeclare queue) (queue_declare_r env)) (\<lambda>u.
     andthen (lib_call c (BasicConsume queue) (basic_consume_r env)) (\<lambda>u.
     ret c)))))) = 0"
  by (intro no_connect_andthen no_connect_basic)

lemma rabbitmq_send_cycle_attempts:
  "connect_attempts (snd (snd (snd (rabbitmq_send_cycle env self drv)))) =
     connect_attempts (snd (snd (RabbitMQConnection_get_connection (amqp_connect env) drv)))"
proof -
  obtain got drv' evs where g:
    "RabbitMQConnection_get_connection (amqp_connect env) drv = (got, drv', evs)"
    by (cases "RabbitMQConnection_get_connection (amqp_connect env) drv") auto
  let ?body = "(\<lambda>connection.
     andthen (deref connection) (\<lambda>c.
     andthen (lib_call c Channel (channel_r env)) (\<lambda>channel.
     andthen (lib_call c (QueueDeclare queue) (queue_declare_r env)) (\<lambda>u.
     andthen (lib_call c (BasicPublish [] queue rabbitmq_payload) (basic_publish_r env)) (\<lambda>u.
     andthen (emit (Log INFO ''Sent Message'')) (\<lambda>u.
     andthen (emit (MetricSet 1)) (\<lambda>u.
     sleep_for (check_interval self))))))))"
  obtain r evs1 where a: "andthen (got, evs) ?body = (r, evs1)"
    by (cases "andthen (got, evs) ?body") auto
  have e1: "connect_attempts evs1 = connect_attempts evs"
    using connect_attempts_andthen_left [of ?body "(got, evs)"] a
    by (simp add: no_connect_send_body)
  obtain out evs2 where h:
    "andthen (emit (Log ERROR ''Error sending message'')) (\<lambda>u.
       andthen (emit (MetricSet 0)) (\<lambda>u. sleep_for (check_interval self))) = (out, evs2)"
    by (cases "andthen (emit (Log ERROR ''Error sending message'')) (\<lambda>u.
       andthen (emit (MetricSet 0)) (\<lambda>u. sleep_for (check_interval self)))") auto
  have e2: "connect_attempts evs2 = 0"
    using no_connect_handler [of "''Error sending message''" "check_interval self"] h by simp
  show ?thesis
    using g a e1 h e2
    by (cases r) (simp_all add: rabbitmq_send_cycle_def connect_attempts_append)
qed

lemma rabbitmq_read_cycle_attempts:
  "connect_attempts (snd (snd (snd (rabbitmq_read_cycle env self drv)))) =
     connect_attempts (snd (snd (RabbitMQConnection_get_connection (amqp_connect env) drv)))"
proof -
  obtain got drv' evs where g:
    "RabbitMQConnection_get_connection (amqp_connect env) drv = (got, drv', evs)"
    by (cases "RabbitMQConnection_get_connection (amqp_connect env) drv") auto
  let ?body = "(\<lambda>connection.
     andthen (deref connection) (\<lambda>c.
     andthen (lib_call c Channel (channel_r env)) (\<lambda>channel.
     andthen (lib_call c (QueueDeclare queue) (queue_declare_r env)) (\<lambda>u.
     andthen (lib_call c (BasicConsume queue) (basic_consume_r env)) (\<lambda>u.
     ret c)))))"
  obtain r evs1 where a: "andthen (got, evs) ?body = (r, evs1)"
    by (cases "andthen (got, evs) ?body") auto
  have e1: "connect_attempts evs1 = connect_attempts evs"
    using connect_attempts_andthen_left [of ?body "(got, evs)"] a
    by (simp add: no_connect_read_body)
  obtain out evs2 where h:
    "andthen (emit (Log ERROR ''Error reading message'')) (\<lambda>u.
       andthen (emit (MetricSet 0)) (\<lambda>u. sleep_for (check_interval self))) = (out, evs2)"
    by (cases "andthen (emit (Log ERROR ''Error reading message'')) (\<lambda>u.
       andthen (emit (MetricSet 0)) (\<lambda>u. sleep_for (check_interval self)))") auto
  have e2: "connect_attempts evs2 = 0"
    using no_connect_handler [of "''Error reading message''" "check_interval self"] h by simp
  obtain n fin where c: "consume_r env = (n, fin)"
    by (cases "consume_r env") auto
  show ?thesis
    using g a e1 h e2 c
    by (cases r; cases fin; cases out)
       (simp_all add: rabbitmq_read_cycle_def Let_def connect_attempts_append
          connect_attempts_callbacks)
qed



section \<open>Connection reuse in PostgreSQL, Redis and RabbitMQ\<close>

text \<open>
  Claim C6, as amended. \<open>RabbitMQConnection.get_connection\<close> calls \<open>connect\<close> exactly when
  nothing is cached or the cached connection is closed, and otherwise returns the cached
  connection. \<open>PostgreSQLConnection.get_connection\<close> and \<open>RedisConnection.get_connection\<close>
  call \<open>connect\<close> exactly when nothing is cached: a cached connection is returned as it
  is, closed or not. In all three variants the number of connection attempts of a probe
  cycle is fixed by the cache alone, whatever \<open>self.result\<close> the previous cycle left.
\<close>

theorem get_connection_reuse_policy:
  "connect_attempts (snd (snd (PostgreSQLConnection_get_connection lib pg))) =
     (if pg_connection pg = None then 1 else 0)
   \<and> connect_attempts (snd (snd (RedisConnection_get_connection lib rd))) =
     (if rd_connection rd = None then 1 else 0)
   \<and> connect_attempts (snd (snd (RabbitMQConnection_get_connection lib rb))) =
     (case rb_connection rb of None \<Rightarrow> 1 | Some c \<Rightarrow> if is_closed c then 1 else 0)
   \<and> (pg_connection pg = Some c \<longrightarrow>
        PostgreSQLConnection_get_connection lib pg = (Inr (Some c), pg, []))
   \<and> (rd_connection rd = Some c \<longrightarrow>
        RedisConnection_get_connection lib rd = (Inr (Some c), rd, []))
   \<and> (rb_connection rb = Some c \<and> \<not> is_closed c \<longrightarrow>
        RabbitMQConnection_get_connection lib rb = (Inr (Some c), rb, []))
   \<and> connect_attempts (snd (snd (snd (postgresql_test_cycle senv self pg)))) =
     (if pg_connection pg = None then 1 else 0)
   \<and> connect_attempts (snd (snd (snd (redis_test_cycle renv self rd)))) =
     (if rd_connection rd = None then 1 else 0)
   \<and> connect_attempts (snd (snd (snd (rabbitmq_send_cycle aenv self rb)))) =
     (case rb_connection rb of None \<Rightarrow> 1 | Some c \<Rightarrow> if is_closed c then 1 else 0)
   \<and> connect_attempts (snd (snd (snd (rabbitmq_read_cycle aenv self rb)))) =
     (case rb_connection rb of None \<Rightarrow> 1 | Some c \<Rightarrow> if is_closed c then 1 else 0)"
proof -
  have "pg_connection pg = Some c \<longrightarrow>
        PostgreSQLConnection_get_connection lib pg = (Inr (Some c), pg, [])"
    by (simp add: PostgreSQLConnection_get_connection_def)
  moreover have "rd_connection rd = Some c \<longrightarrow>
        RedisConnection_get_connection lib rd = (Inr (Some c), rd, [])"
    by (simp add: RedisConnection_get_connection_def)
  moreover have "rb_connection rb = Some c \<and> \<not> is_closed c \<longrightarrow>
        RabbitMQConnection_get_connection lib rb = (Inr (Some c), rb, [])"
    by (simp add: RabbitMQConnection_get_connection_def)
  ultimately show ?thesis
    by (simp only: postgresql_get_connection_attempts redis_get_connection_attempts
        rabbitmq_get_connection_attempts postgresql_cycle_attempts redis_cycle_attempts
        rabbitmq_send_cycle_attempts rabbitmq_read_cycle_attempts simp_thms)
qed

theorem get_connection_reuse_policy_witness:
  "PostgreSQLConnection_get_connection (accept fresh_conn) postgresql_stale =
      (Inr (Some closed_conn), postgresql_stale, [])
   \<and> RedisConnection_get_connection (accept fresh_conn) redis_cached =
      (Inr (Some open_conn), redis_cached, [])
   \<and> RabbitMQConnection_get_connection (accept fresh_conn) rabbitmq_cached =
      (Inr (Some open_conn), rabbitmq_cached, [])
   \<and> connect_attempts (snd (snd (RabbitMQConnection_get_connection (accept fresh_conn) rabbitmq_stale))) = 1
   \<and> connect_attempts (snd (snd (snd (postgresql_test_cycle pg_down (test0\<lparr>result := False\<rparr>) postgresql_stale)))) = 0"
  using get_connection_reuse_policy [where lib = "accept fresh_conn" and pg = postgresql_stale
      and rd = redis_cached and rb = rabbitmq_stale and c = closed_conn and senv = pg_down
      and self = "test0\<lparr>result := False\<rparr>" and renv = redis_up and aenv = amqp_up]
    get_connection_reuse_policy [where lib = "accept fresh_conn" and pg = postgresql_stale
      and rd = redis_cached and rb = rabbitmq_cached and c = open_conn and senv = pg_down
      and self = "test0\<lparr>result := False\<rparr>" and renv = redis_up and aenv = amqp_up]
  by (simp add: postgresql_stale_def redis_cached_def rabbitmq_stale_def rabbitmq_cached_def
      closed_conn_def open_conn_def)

text \<open>
  The claim as stated fails for PostgreSQL: a cached connection that is observably closed
  is returned without any call of \<open>connect\<close>.
\<close>

theorem postgresql_closed_connection_reused_counterexample:
  "is_closed closed_conn
   \<and> pg_connection postgresql_stale = Some closed_conn
   \<and> PostgreSQLConnection_get_connection (accept fresh_conn) postgresql_stale =
      (Inr (Some closed_conn), postgresql_stale, [])
   \<and> connect_attempts (snd (snd (PostgreSQLConnection_get_connection (accept fresh_conn) postgresql_stale))) = 0"
  by (simp add: PostgreSQLConnection_get_connection_def postgresql_stale_def closed_conn_def)

section \<open>Values written to the gauge\<close>

text \<open>
  The only writes are \<open>metric.set(1 if self.result else 0)\<close>, \<open>metric.set(1)\<close> and
  \<open>metric.set(0)\<close>. The lemmas carry this through sequencing, each cycle and each loop.
\<close>

lemma metric_writes_append:
  "metric_writes (xs @ ys) = metric_writes xs @ metric_writes ys"
  by (induction xs rule: metric_writes.induct) simp_all

lemma binary_andthen:
  assumes "binary (snd m)"
      and "\<And>x. binary (snd (f x))"
  shows "binary (snd (andthen m f))"
proof (cases m)
  case (Pair r evs)
  then show ?thesis
    using assms by (cases r) (simp_all add: binary_def andthen_Inl andthen_Inr metric_writes_append)
qed

lemma binary_basic:
  "binary (snd (ret a))"
  "binary (snd (raise e))"
  "binary (snd (emit (Log l s)))"
  "binary (snd (emit (MetricSet 0)))"
  "binary (snd (emit (MetricSet 1)))"
  "binary (snd (emit (MetricSet (if b then 1 else 0))))"
  "binary (snd (lib_call c k r))"
  "binary (snd (deref copt))"
  "binary (snd (sleep_for x))"
  "binary (snd (decode bs))"
  by (simp_all add: binary_def ret_def raise_def emit_def lib_call_def deref_def sleep_for_def
      decode_def split: option.splits sum.splits)

lemma binary_sql_exercise:
  "binary (snd (sql_exercise db env copt))"
  unfolding sql_exercise_def
  by (intro binary_andthen binary_basic)
     (auto simp: binary_basic intro!: binary_andthen split: option.splits list.splits)

lemma binary_redis_exercise:
  "binary (snd (redis_exercise env copt))"
  unfolding redis_exercise_def
  by (intro binary_andthen binary_basic)
     (auto simp: binary_basic intro!: binary_andthen split: option.splits list.splits)

lemma binary_record_and_sleep:
  "binary (snd (record_and_sleep self))"
  unfolding record_and_sleep_def
  by (intro binary_andthen binary_basic)

lemma binary_handler:
  "binary (snd (
     andthen (emit (Log ERROR msg)) (\<lambda>u.
     andthen (emit (MetricSet 0)) (\<lambda>u.
     sleep_for x))))"
  by (intro binary_andthen binary_basic)

lemma binary_callbacks:
  "binary (concat (replicate n callback))"
  by (induction n) (simp_all add: binary_def callback_def metric_writes_append)

lemma silent_get_connection:
  "metric_writes (snd (snd (MySQLConnection_get_connection lib my force))) = []"
  "metric_writes (snd (snd (PostgreSQLConnection_get_connection lib pg))) = []"
  "metric_writes (snd (snd (RedisConnection_get_connection lib rd))) = []"
  "metric_writes (snd (snd (RabbitMQConnection_get_connection lib rb))) = []"
  by (simp_all add: MySQLConnection_get_connection_def MySQLConnection_connect_def
      PostgreSQLConnection_get_connection_def PostgreSQLConnection_connect_def
      RedisConnection_get_connection_def RedisConnection_connect_def
      RabbitMQConnection_get_connection_def RabbitMQConnection_connect_def Let_def
      split: sum.splits)

lemma binary_after_get_connection:
  assumes "metric_writes evs = []" and "\<And>x. binary (snd (f x))"
  shows "binary (snd (andthen (got, evs) f))"
  using assms by (intro binary_andthen) (simp_all add: binary_def)

lemma binary_mysql_cycle:
  "binary (snd (snd (snd (mysql_test_cycle env self drv))))"
proof -
  obtain got drv' evs where g:
    "MySQLConnection_get_connection (sql_connect env) drv (\<not> result self) = (got, drv', evs)"
    by (cases "MySQLConnection_get_connection (sql_connect env) drv (\<not> result self)") auto
  have s: "metric_writes evs = []"
    using silent_get_connection(1) [of "sql_connect env" drv "\<not> result self"] g by simp
  obtain r evs1 where a: "andthen (got, evs) (sql_exercise ''MySQL'' env) = (r, evs1)"
    by (cases "andthen (got, evs) (sql_exercise ''MySQL'' env)") auto
  have e1: "binary evs1"
    using binary_after_get_connection [OF s, of "sql_exercise ''MySQL'' env" got] a
    by (simp add: binary_sql_exercise)
  have e2: "\<And>t. binary (snd (record_and_sleep t))"
    by (rule binary_record_and_sleep)
  have c: "mysql_test_cycle env self drv =
        (case r of
           Inr b \<Rightarrow> (fst (record_and_sleep (self\<lparr>result := b\<rparr>)), self\<lparr>result := b\<rparr>, drv',
                     evs1 @ snd (record_and_sleep (self\<lparr>result := b\<rparr>)))
         | Inl err \<Rightarrow>
             if err = MySQLError
             then (fst (record_and_sleep (self\<lparr>result := False\<rparr>)), self\<lparr>result := False\<rparr>, drv',
                   evs1 @ [Log ERROR ''MySQL error''] @ snd (record_and_sleep (self\<lparr>result := False\<rparr>)))
             else (Inl err, self, drv', evs1))"
    using g a by (cases "result self")
      (simp_all add: mysql_test_cycle_def Let_def case_prod_beta split: sum.splits)
  show ?thesis
    unfolding c using e1 e2 by (cases r) (simp_all add: binary_def metric_writes_append)
qed


lemma binary_append: "binary (xs @ ys) = (binary xs \<and> binary ys)"
  by (simp add: binary_def metric_writes_append)

lemma binary_simps:
  "binary [] = True"
  "binary (Log l s # evs) = binary evs"
  "binary (Call c k # evs) = binary evs"
  "binary (LibConnect args # evs) = binary evs"
  "binary (Sleep x # evs) = binary evs"
  "binary (MetricSet v # evs) = ((v = 0 \<or> v = 1) \<and> binary evs)"
  by (auto simp: binary_def)

lemma binary_postgresql_cycle:
  "binary (snd (snd (snd (postgresql_test_cycle env self drv))))"
proof -
  obtain got drv' evs where g:
    "PostgreSQLConnection_get_connection (sql_connect env) drv = (got, drv', evs)"
    by (cases "PostgreSQLConnection_get_connection (sql_connect env) drv") auto
  have s: "metric_writes evs = []"
    using silent_get_connection(2) [of "sql_connect env" drv] g by simp
  obtain r evs1 where a: "andthen (got, evs) (sql_exercise ''PostgreSQL'' env) = (r, evs1)"
    by (cases "andthen (got, evs) (sql_exercise ''PostgreSQL'' env)") auto
  have e1: "binary evs1"
    using binary_after_get_connection [OF s, of "sql_exercise ''PostgreSQL'' env" got] a
    by (simp add: binary_sql_exercise)
  have e2: "\<And>t. binary (snd (record_and_sleep t))"
    by (rule binary_record_and_sleep)
  have l: "binary [Log ERROR ''PostgreSQL error'']"
    by (simp add: binary_def)
  show ?thesis
    using g a e1 e2 l
    by (cases r)
       (simp_all add: postgresql_test_cycle_def Let_def case_prod_beta binary_append binary_simps)
qed

lemma binary_redis_cycle:
  "binary (snd (snd (snd (redis_test_cycle env self drv))))"
proof -
  obtain got drv' evs where g:
    "RedisConnection_get_connection (redis_connect env) drv = (got, drv', evs)"
    by (cases "RedisConnection_get_connection (redis_connect env) drv") auto
  have s: "metric_writes evs = []"
    using silent_get_connection(3) [of "redis_connect env" drv] g by simp
  obtain r evs1 where a: "andthen (got, evs) (redis_exercise env) = (r, evs1)"
    by (cases "andthen (got, evs) (redis_exercise env)") auto
  have e1: "binary evs1"
    using binary_after_get_connection [OF s, of "redis_exercise env" got] a
    by (simp add: binary_redis_exercise)
  have e2: "\<And>t. binary (snd (record_and_sleep t))"
    by (rule binary_record_and_sleep)
  have l: "binary [Log ERROR ''Redis operation error'']"
    by (simp add: binary_def)
  show ?thesis
    using g a e1 e2 l
    by (cases r)
       (simp_all add: redis_test_cycle_def Let_def case_prod_beta binary_append binary_simps)
qed

lemma binary_send_body:
  "binary (snd (
     andthen (deref connection) (\<lambda>c.
     andthen (lib_call c Channel (channel_r env)) (\<lambda>channel.
     andthen (lib_call c (QueueDeclare queue) (queue_declare_r env)) (\<lambda>u.
     andthen (lib_call c (BasicPublish [] queue rabbitmq_payload) (basic_publish_r env)) (\<lambda>u.
     andthen (emit (Log INFO ''Sent Message'')) (\<lambda>u.
     andthen (emit (MetricSet 1)) (\<lambda>u.
     sleep_for (check_interval self)))))))))"
  by (intro binary_andthen binary_basic)

lemma binary_read_body:
  "binary (snd (
     andthen (deref connection) (\<lambda>c.
     andthen (lib_call c Channel (channel_r env)) (\<lambda>channel.
     andthen (lib_call c (QueueDeclare queue) (queue_declare_r env)) (\<lambda>u.
     andthen (lib_call c (BasicConsume queue) (basic_consume_r env)) (\<lambda>u.
     ret c))))))"
  by (intro binary_andthen binary_basic)

lemma binary_rabbitmq_send_cycle:
  "binary (snd (snd (snd (rabbitmq_send_cycle env self drv))))"
proof -
  obtain got drv' evs where g:
    "RabbitMQConnection_get_connection (amqp_connect env) drv = (got, drv', evs)"
    by (cases "RabbitMQConnection_get_connection (amqp_connect env) drv") auto
  have s: "metric_writes evs = []"
    using silent_get_connection(4) [of "amqp_connect env" drv] g by simp
  let ?body = "(\<lambda>connection.
     andthen (deref connection) (\<lambda>c.
     andthen (lib_call c Channel (channel_r env)) (\<lambda>channel.
     andthen (lib_call c (QueueDeclare queue) (queue_declare_r env)) (\<lambda>u.
     andthen (lib_call c (BasicPublish [] queue rabbitmq_payload) (basic_publish_r env)) (\<lambda>u.
     andthen (emit (Log INFO ''Sent Message'')) (\<lambda>u.
     andthen (emit (MetricSet 1)) (\<lambda>u.
     sleep_for (check_interval self))))))))"
  obtain r evs1 where a: "andthen (got, evs) ?body = (r, evs1)"
    by (cases "andthen (got, evs) ?body") auto
  have e1: "binary evs1"
    using binary_after_get_connection [OF s, of ?body got] a
    by (simp add: binary_send_body)
  obtain out evs2 where h:
    "andthen (emit (Log ERROR ''Error sending message'')) (\<lambda>u.
       andthen (emit (MetricSet 0)) (\<lambda>u. sleep_for (check_interval self))) = (out, evs2)"
    by (cases "andthen (emit (Log ERROR ''Error sending message'')) (\<lambda>u.
       andthen (emit (MetricSet 0)) (\<lambda>u. sleep_for (check_interval self)))") auto
  have e2: "binary evs2"
    using binary_handler [of "''Error sending message''" "check_interval self"] h by simp
  show ?thesis
    using g a e1 h e2
    by (cases r) (simp_all add: rabbitmq_send_cycle_def binary_append binary_simps)
qed

lemma binary_rabbitmq_read_cycle:
  "binary (snd (snd (snd (rabbitmq_read_cycle env self drv))))"
proof -
  obtain got drv' evs where g:
    "RabbitMQConnection_get_connection (amqp_connect env) drv = (got, drv', evs)"
    by (cases "RabbitMQConnection_get_connection (amqp_connect env) drv") auto
  have s: "metric_writes evs = []"
    using silent_get_connection(4) [of "amqp_connect env" drv] g by simp
  let ?body = "(\<lambda>connection.
     andthen (deref connection) (\<lambda>c.
     andthen (lib_call c Channel (channel_r env)) (\<lambda>channel.
     andthen (lib_call c (QueueDeclare queue) (queue_declare_r env)) (\<lambda>u.
     andthen (lib_call c (BasicConsume queue) (basic_consume_r env)) (\<lambda>u.
     ret c)))))"
  obtain r evs1 where a: "andthen (got, evs) ?body = (r, evs1)"
    by (cases "andthen (got, evs) ?body") auto
  have e1: "binary evs1"
    using binary_after_get_connection [OF s, of ?body got] a
    by (simp add: binary_read_body)
  obtain out evs2 where h:
    "andthen (emit (Log ERROR ''Error reading message'')) (\<lambda>u.
       andthen (emit (MetricSet 0)) (\<lambda>u. sleep_for (check_interval self))) = (out, evs2)"
    by (cases "andthen (emit (Log ERROR ''Error reading message'')) (\<lambda>u.
       andthen (emit (MetricSet 0)) (\<lambda>u. sleep_for (check_interval self)))") auto
  have e2: "binary evs2"
    using binary_handler [of "''Error reading message''" "check_interval self"] h by simp
  obtain n fin where c: "consume_r env = (n, fin)"
    by (cases "consume_r env") auto
  have s: "binary [Call x StartConsuming]" for x
    by (simp add: binary_def)
  show ?thesis
    using g a e1 h e2 c s binary_callbacks [of n]
    by (cases r; cases fin; cases out)
       (simp_all add: rabbitmq_read_cycle_def Let_def binary_append binary_simps)
qed

lemma binary_mysql_loop:
  "binary (snd (snd (snd (mysql_test_query_check envs self drv))))"
proof (induction envs arbitrary: self drv)
  case Nil
  show ?case by (simp add: binary_simps)
next
  case (Cons env envs)
  obtain out self' drv' evs where c: "mysql_test_cycle env self drv = (out, self', drv', evs)"
    by (cases "mysql_test_cycle env self drv") auto
  have b: "binary evs"
    using binary_mysql_cycle [of env self drv] c by simp
  show ?case
    using c b Cons.IH [of self' drv']
    by (cases out) (simp_all add: binary_append case_prod_beta binary_simps)
qed


lemma binary_postgresql_loop:
  "binary (snd (snd (snd (postgresql_test_query_check envs self drv))))"
proof (induction envs arbitrary: self drv)
  case Nil
  show ?case by (simp add: binary_simps)
next
  case (Cons env envs)
  obtain out self' drv' evs where c: "postgresql_test_cycle env self drv = (out, self', drv', evs)"
    by (cases "postgresql_test_cycle env self drv") auto
  have b: "binary evs"
    using binary_postgresql_cycle [of env self drv] c by simp
  show ?case
    using c b Cons.IH [of self' drv']
    by (cases out) (simp_all add: binary_append case_prod_beta binary_simps)
qed

lemma binary_redis_loop:
  "binary (snd (snd (snd (redis_test_test_redis envs self drv))))"
proof (induction envs arbitrary: self drv)
  case Nil
  show ?case by (simp add: binary_simps)
next
  case (Cons env envs)
  obtain out self' drv' evs where c: "redis_test_cycle env self drv = (out, self', drv', evs)"
    by (cases "redis_test_cycle env self drv") auto
  have b: "binary evs"
    using binary_redis_cycle [of env self drv] c by simp
  show ?case
    using c b Cons.IH [of self' drv']
    by (cases out) (simp_all add: binary_append case_prod_beta binary_simps)
qed

lemma binary_rabbitmq_send_loop:
  "binary (snd (snd (snd (rabbitmq_test_send_message_test envs self drv))))"
proof (induction envs arbitrary: self drv)
  case Nil
  show ?case by (simp add: binary_simps)
next
  case (Cons env envs)
  obtain out self' drv' evs where c: "rabbitmq_send_cycle env self drv = (out, self', drv', evs)"
    by (cases "rabbitmq_send_cycle env self drv") auto
  have b: "binary evs"
    using binary_rabbitmq_send_cycle [of env self drv] c by simp
  show ?case
    using c b Cons.IH [of self' drv']
    by (cases out) (simp_all add: binary_append case_prod_beta binary_simps)
qed

lemma binary_rabbitmq_read_loop:
  "binary (snd (snd (snd (rabbitmq_test_read_message_test envs self drv))))"
proof (induction envs arbitrary: self drv)
  case Nil
  show ?case by (simp add: binary_simps)
next
  case (Cons env envs)
  obtain out self' drv' evs where c: "rabbitmq_read_cycle env self drv = (out, self', drv', evs)"
    by (cases "rabbitmq_read_cycle env self drv") auto
  have b: "binary evs"
    using binary_rabbitmq_read_cycle [of env self drv] c by simp
  show ?case
    using c b Cons.IH [of self' drv']
    by (cases out) (simp_all add: binary_append case_prod_beta binary_simps)
qed


text \<open>
  Claim C9. Every value a probe loop writes to its gauge is 1 or 0, for every variant
  and both RabbitMQ sub-probes, over every script of backend answers, from every state
  and whether or not the loop survives.
\<close>

theorem gauge_values_are_binary:
  "set (metric_writes (snd (snd (snd (mysql_test_query_check senvs self my))))) \<subseteq> {0, 1}
   \<and> set (metric_writes (snd (snd (snd (postgresql_test_query_check senvs self pg))))) \<subseteq> {0, 1}
   \<and> set (metric_writes (snd (snd (snd (redis_test_test_redis renvs self rd))))) \<subseteq> {0, 1}
   \<and> set (metric_writes (snd (snd (snd (rabbitmq_test_send_message_test aenvs self rb))))) \<subseteq> {0, 1}
   \<and> set (metric_writes (snd (snd (snd (rabbitmq_test_read_message_test aenvs self rb))))) \<subseteq> {0, 1}"
  using binary_mysql_loop [of senvs self my] binary_postgresql_loop [of senvs self pg]
    binary_redis_loop [of renvs self rd] binary_rabbitmq_send_loop [of aenvs self rb]
    binary_rabbitmq_read_loop [of aenvs self rb]
  by (simp only: binary_def simp_thms)

theorem gauge_values_are_binary_witness:
  "metric_writes (snd (snd (snd (mysql_test_query_check [sql_up, sql_broken, sql_up_again] test0 mysql0)))) = [1, 0, 1]
   \<and> metric_writes (snd (snd (snd (redis_test_test_redis [redis_up, redis_delete_noop] test0 redis0)))) = [1, 0]
   \<and> metric_writes (snd (snd (snd (rabbitmq_test_send_message_test [amqp_up, amqp_down] test0 rabbitmq0)))) = [1, 0]
   \<and> metric_writes (snd (snd (snd (rabbitmq_test_read_message_test [amqp_up, amqp_down] test0 rabbitmq0)))) = [1, 1, 0, 0]
   \<and> set (metric_writes (snd (snd (snd (postgresql_test_query_check [sql_up, pg_down] test0 postgresql0))))) \<subseteq> {0, 1}"
proof -
  have "metric_writes (snd (snd (snd (mysql_test_query_check [sql_up, sql_broken, sql_up_again] test0 mysql0)))) = [1, 0, 1]"
    by code_simp
  moreover have "metric_writes (snd (snd (snd (redis_test_test_redis [redis_up, redis_delete_noop] test0 redis0)))) = [1, 0]"
    by code_simp
  moreover have "metric_writes (snd (snd (snd (rabbitmq_test_send_message_test [amqp_up, amqp_down] test0 rabbitmq0)))) = [1, 0]"
    by code_simp
  moreover have "metric_writes (snd (snd (snd (rabbitmq_test_read_message_test [amqp_up, amqp_down] test0 rabbitmq0)))) = [1, 1, 0, 0]"
    by code_simp
  ultimately show ?thesis
    using gauge_values_are_binary [of "[sql_up, pg_down]" test0 mysql0 postgresql0 "[]" redis0 "[]" rabbitmq0]
    by simp
qed

section \<open>Survival of the probe loops\<close>

text \<open>
  With a \<open>check_interval\<close> that \<open>time.sleep\<close> accepts, no answer of the backend ends the
  Redis loop or either RabbitMQ loop: their handlers are \<open>except Exception\<close>.
\<close>

lemma redis_cycle_survives:
  assumes "py_sleep (check_interval self) = Inr ()"
  shows "fst (redis_test_cycle env self drv) = Inr ()
         \<and> check_interval (fst (snd (redis_test_cycle env self drv))) = check_interval self
         \<and> stop_event (fst (snd (redis_test_cycle env self drv))) = stop_event self"
  using assms
  by (simp add: redis_test_cycle_def Let_def record_and_sleep_def andthen_Inr emit_def sleep_for_def
      case_prod_beta split: sum.splits)

lemma redis_loop_survives:
  assumes "py_sleep (check_interval self) = Inr ()"
  shows "fst (redis_test_test_redis envs self drv) = (if stop_event self then Returned else Running)"
  using assms
proof (induction envs arbitrary: self drv)
  case Nil
  show ?case by simp
next
  case (Cons env envs)
  obtain out self' drv' evs where c: "redis_test_cycle env self drv = (out, self', drv', evs)"
    by (cases "redis_test_cycle env self drv") auto
  have o: "out = Inr ()" and i: "check_interval self' = check_interval self"
    and st: "stop_event self' = stop_event self"
    using redis_cycle_survives [OF Cons.prems, of env drv] c by simp_all
  show ?case
    using c o st Cons.IH [of self' drv'] i Cons.prems
    by (simp add: case_prod_beta)
qed


lemma rabbitmq_send_cycle_survives:
  assumes "py_sleep (check_interval self) = Inr ()"
  shows "fst (rabbitmq_send_cycle env self drv) = Inr ()
         \<and> fst (snd (rabbitmq_send_cycle env self drv)) = self"
  using assms
  by (simp add: rabbitmq_send_cycle_def andthen_Inr emit_def sleep_for_def
      case_prod_beta split: sum.splits)

lemma rabbitmq_send_loop_survives:
  assumes "py_sleep (check_interval self) = Inr ()"
  shows "fst (rabbitmq_test_send_message_test envs self drv) =
           (if stop_event self then Returned else Running)"
  using assms
proof (induction envs arbitrary: drv)
  case Nil
  show ?case by simp
next
  case (Cons env envs)
  obtain out self' drv' evs where c: "rabbitmq_send_cycle env self drv = (out, self', drv', evs)"
    by (cases "rabbitmq_send_cycle env self drv") auto
  have o: "out = Inr ()" and i: "self' = self"
    using rabbitmq_send_cycle_survives [OF Cons.prems, of env drv] c by simp_all
  show ?case
    using c o i Cons.IH [of drv'] Cons.prems
    by (simp add: case_prod_beta)
qed

lemma rabbitmq_read_cycle_survives:
  assumes "py_sleep (check_interval self) = Inr ()"
  shows "(fst (rabbitmq_read_cycle env self drv) = Running
          \<or> fst (rabbitmq_read_cycle env self drv) = Blocked)
         \<and> fst (snd (rabbitmq_read_cycle env self drv)) = self"
  using assms
  by (simp add: rabbitmq_read_cycle_def Let_def andthen_Inr emit_def sleep_for_def
      case_prod_beta split: sum.splits consume_end.splits)

lemma rabbitmq_read_loop_survives:
  assumes "py_sleep (check_interval self) = Inr ()"
  shows "fst (rabbitmq_test_read_message_test envs self drv) \<in> {Running, Returned, Blocked}"
  using assms
proof (induction envs arbitrary: drv)
  case Nil
  show ?case by simp
next
  case (Cons env envs)
  obtain out self' drv' evs where c: "rabbitmq_read_cycle env self drv = (out, self', drv', evs)"
    by (cases "rabbitmq_read_cycle env self drv") auto
  have o: "out = Running \<or> out = Blocked" and i: "self' = self"
    using rabbitmq_read_cycle_survives [OF Cons.prems, of env drv] c by simp_all
  show ?case
    using c o i Cons.IH [of drv'] Cons.prems
    by (auto simp: case_prod_beta)
qed

text \<open>
  Claim C1 (no backend error ever terminates a probe loop) at the input where the
  database cannot be reached on the first cycle. \<open>connect\<close> handles and logs the
  library's error and leaves the connection unset, \<open>get_connection\<close> returns \<open>None\<close>, and
  \<open>connection.cursor()\<close> raises \<open>AttributeError\<close>, which the loop's handler
  (\<open>mysql.connector.Error\<close>, \<open>psycopg2.Error\<close>) does not cover: the MySQL and the
  PostgreSQL loop end on their first cycle, before anything is written to the gauge, and
  the second cycle of the script, in which the database is back, never runs.
\<close>

theorem sql_loops_die_on_unreachable_backend:
  "mysql_test_query_check [sql_down, sql_up] test0 mysql0 =
     (Raised AttributeError, test0, mysql0,
      [LibConnect (mysql_kwargs mysql0), Log ERROR ''Error connecting to MySQL''])
   \<and> postgresql_test_query_check [pg_down, sql_up] test0 postgresql0 =
     (Raised AttributeError, test0, postgresql0,
      [LibConnect (postgresql_kwargs postgresql0), Log ERROR ''Error connecting to PostgreSQL''])"
  by (simp add: mysql_test_cycle_def postgresql_test_cycle_def
      MySQLConnection_get_connection_def MySQLConnection_connect_def
      PostgreSQLConnection_get_connection_def PostgreSQLConnection_connect_def
      sql_exercise_def andthen_def deref_def raise_def Let_def
      sql_down_def pg_down_def refuse_def test0_def mysql0_def postgresql0_def)

section \<open>The Redis exercise\<close>

text \<open>
  The value of a sequence of statements, the decoding of the sentinel, and the writes of
  one cycle of \<open>test_redis\<close>.
\<close>

lemma andthen_eq_Inr:
  "(fst (andthen m f) = Inr y) = (\<exists>x. fst m = Inr x \<and> fst (f x) = Inr y)"
proof (cases m)
  case (Pair r evs)
  then show ?thesis
    by (cases r) (simp_all add: andthen_Inl andthen_Inr)
qed

lemma fst_basic:
  "fst (ret a) = Inr a"
  "fst (raise e) = Inl e"
  "fst (emit ev) = Inr ()"
  "fst (lib_call c k r) = r"
  "fst (decode bs) = utf8_decode (map of_char bs)"
  "(fst (deref copt) = Inr c) = (copt = Some c)"
  by (simp_all add: ret_def raise_def emit_def lib_call_def decode_def deref_def
      split: option.splits)

lemma utf8_decode_ascii:
  "utf8_decode bs = Inr cs \<Longrightarrow> \<forall>c \<in> set cs. c < 128 \<Longrightarrow> bs = cs"
proof (induction bs arbitrary: cs rule: utf8_decode.induct)
  case 1
  then show ?case by simp
next
  case (2 b bs)
  show ?case
  proof (cases "b < 128")
    case True
    then show ?thesis
      using "2.prems" "2.IH"(1) by (auto split: sum.splits)
  next
    case False
    then have "\<exists>c \<in> set cs. 128 \<le> c"
      using "2.prems"(1)
      by (auto simp: cont_def split: if_splits list.splits sum.splits)
    then show ?thesis
      using "2.prems"(2) by auto
  qed
qed


lemma decode_payload:
  "utf8_decode (map of_char payload) = Inr (code_points payload)"
  by (simp add: payload_def code_points_def)

lemma payload_ascii: "\<forall>c \<in> set (code_points payload). c < 128"
  by (simp add: payload_def code_points_def)

lemma decode_is_payload:
  "(utf8_decode (map of_char v) = Inr (code_points payload)) = (v = payload)"
proof
  assume d: "utf8_decode (map of_char v) = Inr (code_points payload)"
  have "map of_char v = code_points payload"
    by (rule utf8_decode_ascii [OF d payload_ascii])
  then have "map (of_char :: char \<Rightarrow> nat) v = map of_char payload"
    by (simp add: code_points_def)
  then show "v = payload"
    using inj_of_char [where ?'a = nat] by (simp add: inj_map_eq_map)
next
  assume "v = payload"
  then show "utf8_decode (map of_char v) = Inr (code_points payload)"
    by (simp add: decode_payload)
qed

lemma payload_nonempty: "payload \<noteq> []"
  by (simp add: payload_def)

lemma match_step:
  "(fst (case val of
           None \<Rightarrow> ret False
         | Some v \<Rightarrow>
             if v = [] then ret False
             else andthen (decode v) (\<lambda>s. ret (s = code_points payload))) = Inr b)
     = (case val of
          None \<Rightarrow> \<not> b
        | Some v \<Rightarrow>
            if v = [] then \<not> b
            else \<exists>s. utf8_decode (map of_char v) = Inr s \<and> b = (v = payload))"
  using payload_nonempty
  by (cases val) (auto simp: andthen_eq_Inr fst_basic simp flip: decode_is_payload)

lemma counter_step:
  "(fst (case counter_value of
           None \<Rightarrow> raise AttributeError
         | Some cv \<Rightarrow> andthen (decode cv) (\<lambda>s. ret ())) = Inr u)
     = (\<exists>cv s. counter_value = Some cv \<and> utf8_decode (map of_char cv) = Inr s)"
  by (cases counter_value) (auto simp: andthen_eq_Inr fst_basic)

lemma redis_exercise_success:
  "(fst (redis_exercise env connection) = Inr True) =
     ((\<exists>c. connection = Some c)
      \<and> set_r env = Inr ()
      \<and> get_key_r env = Inr (Some payload)
      \<and> incr_r env = Inr ()
      \<and> (\<exists>cv s. get_counter_r env = Inr (Some cv) \<and> utf8_decode (map of_char cv) = Inr s)
      \<and> delete_key_r env = Inr ()
      \<and> delete_counter_r env = Inr ()
      \<and> exists_r env = Inr 0)"
  unfolding redis_exercise_def
  apply (simp add: andthen_eq_Inr fst_basic match_step counter_step)
  apply (auto simp: andthen_eq_Inr fst_basic counter_step payload_nonempty decode_payload
      split: option.splits if_splits)
  done


lemma silent_andthen:
  assumes "metric_writes (snd m) = []" and "\<And>x. metric_writes (snd (f x)) = []"
  shows "metric_writes (snd (andthen m f)) = []"
proof (cases m)
  case (Pair r evs)
  then show ?thesis
    using assms by (cases r) (simp_all add: andthen_Inl andthen_Inr metric_writes_append)
qed

lemma silent_basic:
  "metric_writes (snd (ret a)) = []"
  "metric_writes (snd (raise e)) = []"
  "metric_writes (snd (emit (Log l s))) = []"
  "metric_writes (snd (lib_call c k r)) = []"
  "metric_writes (snd (deref copt)) = []"
  "metric_writes (snd (sleep_for x)) = []"
  "metric_writes (snd (decode bs)) = []"
  by (simp_all add: ret_def raise_def emit_def lib_call_def deref_def sleep_for_def
      decode_def split: option.splits sum.splits)

lemma silent_sql_exercise:
  "metric_writes (snd (sql_exercise db env copt)) = []"
  unfolding sql_exercise_def
  by (intro silent_andthen silent_basic)
     (auto simp: silent_basic intro!: silent_andthen split: option.splits list.splits)

lemma silent_redis_exercise:
  "metric_writes (snd (redis_exercise env copt)) = []"
  unfolding redis_exercise_def
  by (intro silent_andthen silent_basic)
     (auto simp: silent_basic intro!: silent_andthen split: option.splits list.splits)

lemma record_and_sleep_writes:
  "metric_writes (snd (record_and_sleep self)) = [if result self then 1 else 0]"
  by (simp add: record_and_sleep_def andthen_Inr emit_def sleep_for_def split: sum.splits)

lemma redis_get_connection_returns:
  "fst (RedisConnection_get_connection lib rd) =
     Inr (rd_connection (fst (snd (RedisConnection_get_connection lib rd))))"
  by (simp add: RedisConnection_get_connection_def RedisConnection_connect_def Let_def
      split: sum.splits)

lemma redis_cycle_outcome:
  "result (fst (snd (redis_test_cycle env self drv))) =
     (fst (redis_exercise env (rd_connection (fst (snd (snd (redis_test_cycle env self drv)))))) = Inr True)
   \<and> metric_writes (snd (snd (snd (redis_test_cycle env self drv)))) =
     [if result (fst (snd (redis_test_cycle env self drv))) then 1 else 0]"
proof -
  obtain got drv' evs where g:
    "RedisConnection_get_connection (redis_connect env) drv = (got, drv', evs)"
    by (cases "RedisConnection_get_connection (redis_connect env) drv") auto
  have got: "got = Inr (rd_connection drv')"
    using redis_get_connection_returns [of "redis_connect env" drv] g by simp
  have s: "metric_writes evs = []"
    using silent_get_connection(3) [of "redis_connect env" drv] g by simp
  obtain r evs1 where x: "redis_exercise env (rd_connection drv') = (r, evs1)"
    by (cases "redis_exercise env (rd_connection drv')") auto
  have s1: "metric_writes evs1 = []"
    using silent_redis_exercise [of env "rd_connection drv'"] x by simp
  have w: "\<And>t. metric_writes (snd (record_and_sleep t)) = [if result t then 1 else 0]"
    by (rule record_and_sleep_writes)
  show ?thesis
    using g got s x s1 w
    by (cases r)
       (simp_all add: redis_test_cycle_def Let_def andthen_Inr case_prod_beta metric_writes_append)
qed



lemma redis_success_calls:
  assumes "fst (redis_exercise env (Some c)) = Inr True"
  shows "calls_made (snd (redis_exercise env (Some c))) =
           [RSet key payload, RGet key, RIncr counter 1, RGet counter,
            RDelete key, RDelete counter, RExists key]"
proof -
  have k: "set_r env = Inr ()" "get_key_r env = Inr (Some payload)" "incr_r env = Inr ()"
    "delete_key_r env = Inr ()" "delete_counter_r env = Inr ()" "exists_r env = Inr 0"
    using assms redis_exercise_success [of env "Some c"] by simp_all
  obtain cv s where g: "get_counter_r env = Inr (Some cv)" "utf8_decode (map of_char cv) = Inr s"
    using assms redis_exercise_success [of env "Some c"] by auto
  show ?thesis
    using k g payload_nonempty decode_payload
    by (simp add: redis_exercise_def deref_def ret_def lib_call_def emit_def decode_def
        andthen_Inr)
qed

text \<open>
  Claim C7. The \<open>try\<close> body of \<open>test_redis\<close> yields success exactly when a connection
  was obtained, \<open>set\<close> returned, \<open>get\<close> returned the sentinel value, \<open>incr\<close> returned, the
  counter read back for the log line is present and decodable, both \<open>delete\<close> calls
  returned, and \<open>exists\<close> reported 0 for the sentinel key. A cycle records success exactly
  in that case and writes 1 then, 0 otherwise: any exception, any other value read back
  and a key that still exists after \<open>delete\<close> all give failure. On success the calls were
  made in the order set, get, incr, get (counter), delete, delete (counter), exists.
\<close>

theorem redis_probe_success_iff:
  "(fst (redis_exercise env connection) = Inr True) =
     ((\<exists>c. connection = Some c)
      \<and> set_r env = Inr ()
      \<and> get_key_r env = Inr (Some payload)
      \<and> incr_r env = Inr ()
      \<and> (\<exists>cv s. get_counter_r env = Inr (Some cv) \<and> utf8_decode (map of_char cv) = Inr s)
      \<and> delete_key_r env = Inr ()
      \<and> delete_counter_r env = Inr ()
      \<and> exists_r env = Inr 0)
   \<and> result (fst (snd (redis_test_cycle env self drv))) =
       (fst (redis_exercise env (rd_connection (fst (snd (snd (redis_test_cycle env self drv)))))) = Inr True)
   \<and> metric_writes (snd (snd (snd (redis_test_cycle env self drv)))) =
       [if result (fst (snd (redis_test_cycle env self drv))) then 1 else 0]
   \<and> (fst (redis_exercise env connection) = Inr True \<longrightarrow>
        calls_made (snd (redis_exercise env connection)) =
          [RSet key payload, RGet key, RIncr counter 1, RGet counter,
           RDelete key, RDelete counter, RExists key])"
proof -
  have "fst (redis_exercise env connection) = Inr True \<longrightarrow>
        calls_made (snd (redis_exercise env connection)) =
          [RSet key payload, RGet key, RIncr counter 1, RGet counter,
           RDelete key, RDelete counter, RExists key]"
  proof
    assume t: "fst (redis_exercise env connection) = Inr True"
    then obtain c where "connection = Some c"
      using redis_exercise_success [of env connection] by auto
    then show "calls_made (snd (redis_exercise env connection)) =
          [RSet key payload, RGet key, RIncr counter 1, RGet counter,
           RDelete key, RDelete counter, RExists key]"
      using t redis_success_calls by simp
  qed
  then show ?thesis
    using redis_exercise_success [of env connection] redis_cycle_outcome [of env self drv]
    by blast
qed

theorem redis_probe_success_iff_witness:
  "fst (redis_exercise redis_up (Some open_conn)) = Inr True
   \<and> fst (redis_exercise redis_delete_noop (Some open_conn)) \<noteq> Inr True
   \<and> exists_r redis_delete_noop = Inr 1
   \<and> delete_key_r redis_delete_noop = Inr ()"
  using redis_probe_success_iff [of redis_up "Some open_conn" test0 redis0]
    redis_probe_success_iff [of redis_delete_noop "Some open_conn" test0 redis0]
  by (simp add: redis_up_def redis_delete_noop_def payload_def)

text \<open>The two sample caches, run for one cycle each.\<close>

lemma redis_delete_noop_cycle:
  "result (fst (snd (redis_test_cycle redis_delete_noop test0 redis0))) = False
   \<and> metric_writes (snd (snd (snd (redis_test_cycle redis_delete_noop test0 redis0)))) = [0]
   \<and> result (fst (snd (redis_test_cycle redis_up test0 redis0))) = True
   \<and> metric_writes (snd (snd (snd (redis_test_cycle redis_up test0 redis0)))) = [1]"
  by code_simp

section \<open>The reconnect policy of the MySQL loop\<close>

text \<open>
  Facts about one call of \<open>MySQLConnection.get_connection\<close> and one cycle of
  \<open>mysql_test.query_check\<close>: how many connection attempts it makes, on which
  connection its calls are made, and what it writes.
\<close>

lemma call_conns_append: "call_conns (xs @ ys) = call_conns xs @ call_conns ys"
  by (induction xs rule: call_conns.induct) simp_all

lemma calls_andthen:
  assumes "set (call_conns (snd m)) \<subseteq> A" and "\<And>x. set (call_conns (snd (f x))) \<subseteq> A"
  shows "set (call_conns (snd (andthen m f))) \<subseteq> A"
proof (cases m)
  case (Pair r evs)
  then show ?thesis
    using assms by (cases r) (simp_all add: andthen_Inl andthen_Inr call_conns_append)
qed

lemma calls_sql_exercise:
  "set (call_conns (snd (sql_exercise db env copt))) \<subseteq> set_option copt"
proof (cases copt)
  case None
  then show ?thesis
    by (simp add: sql_exercise_def deref_def raise_def andthen_Inl)
next
  case (Some c)
  have b: "set (call_conns (snd (lib_call c k r))) \<subseteq> {c}" for k and r :: "exn + 'a"
    by (simp add: lib_call_def)
  have e: "set (call_conns (snd (emit (Log l s)))) \<subseteq> {c}" for l s
    by (simp add: emit_def)
  have r: "set (call_conns (snd (ret a))) \<subseteq> {c}" for a :: 'b
    by (simp add: ret_def)
  have x: "set (call_conns (snd (raise ex))) \<subseteq> {c}" for ex
    by (simp add: raise_def)
  show ?thesis
    unfolding sql_exercise_def Some
    by (simp add: deref_def ret_def andthen_Inr)
       (intro calls_andthen b e r x;
        simp add: ret_def raise_def emit_def andthen_Inr split: option.splits list.splits)
qed


lemma mysql_get_connection_facts:
  assumes "MySQLConnection_get_connection lib drv force = (got, drv', evs)"
  shows "connect_attempts evs = (if force \<or> my_connection drv = None then 1 else 0)"
    and "call_conns evs = []"
    and "\<forall>copt. got = Inr copt \<longrightarrow> copt = my_connection drv'"
    and "\<not> force \<and> my_connection drv \<noteq> None \<longrightarrow> drv' = drv \<and> evs = []"
    and "force \<or> my_connection drv = None \<longrightarrow>
           take 1 evs = [LibConnect (mysql_kwargs drv)]
           \<and> (\<forall>c. lib (mysql_kwargs drv) = Inr c \<longrightarrow> my_connection drv' = Some c)
           \<and> (\<forall>e. lib (mysql_kwargs drv) = Inl e \<longrightarrow> drv' = drv)"
  using assms
  by (auto simp: MySQLConnection_get_connection_def MySQLConnection_connect_def Let_def
      split: sum.splits if_splits)

lemma mysql_cycle_unfold:
  assumes g: "MySQLConnection_get_connection (sql_connect env) drv (\<not> result self) = (got, drv', evs)"
      and a: "andthen (got, evs) (sql_exercise ''MySQL'' env) = (r, evs1)"
  shows "mysql_test_cycle env self drv =
        (case r of
           Inr b \<Rightarrow> (fst (record_and_sleep (self\<lparr>result := b\<rparr>)), self\<lparr>result := b\<rparr>, drv',
                     evs1 @ snd (record_and_sleep (self\<lparr>result := b\<rparr>)))
         | Inl err \<Rightarrow>
             if err = MySQLError
             then (fst (record_and_sleep (self\<lparr>result := False\<rparr>)), self\<lparr>result := False\<rparr>, drv',
                   evs1 @ [Log ERROR ''MySQL error''] @ snd (record_and_sleep (self\<lparr>result := False\<rparr>)))
             else (Inl err, self, drv', evs1))"
  using g a by (cases "result self")
    (simp_all add: mysql_test_cycle_def Let_def case_prod_beta split: sum.splits)

lemma record_and_sleep_quiet:
  "connect_attempts (snd (record_and_sleep t)) = 0"
  "call_conns (snd (record_and_sleep t)) = []"
  by (simp_all add: record_and_sleep_def andthen_Inr emit_def sleep_for_def split: sum.splits)

lemma sql_exercise_needs_connection:
  "fst (sql_exercise db env copt) = Inr b \<Longrightarrow> copt \<noteq> None"
  by (cases copt) (simp_all add: sql_exercise_def deref_def raise_def andthen_Inl)

text \<open>What one cycle of the MySQL loop does, from the state the previous cycle left.\<close>

lemma mysql_cycle_facts:
  assumes c: "mysql_test_cycle env self drv = (out, self', drv', evs)"
  shows "connect_attempts evs = (if \<not> result self \<or> my_connection drv = None then 1 else 0)"
    and "drv' = fst (snd (MySQLConnection_get_connection (sql_connect env) drv (\<not> result self)))"
    and "set (call_conns evs) \<subseteq> set_option (my_connection drv')"
    and "out = Inr () \<longrightarrow> metric_writes evs = [if result self' then 1 else 0]"
    and "out = Inr () \<and> result self' \<longrightarrow> my_connection drv' \<noteq> None"
proof -
  obtain got d1 evs0 where g:
    "MySQLConnection_get_connection (sql_connect env) drv (\<not> result self) = (got, d1, evs0)"
    by (cases "MySQLConnection_get_connection (sql_connect env) drv (\<not> result self)") auto
  obtain r evs1 where a: "andthen (got, evs0) (sql_exercise ''MySQL'' env) = (r, evs1)"
    by (cases "andthen (got, evs0) (sql_exercise ''MySQL'' env)") auto
  note u = mysql_cycle_unfold [OF g a]
  note f = mysql_get_connection_facts [OF g]
  have d: "drv' = d1"
    using c u by (cases r) (auto split: if_splits)
  have e1c: "connect_attempts evs1 = connect_attempts evs0"
    using connect_attempts_andthen_left [of "sql_exercise ''MySQL'' env" "(got, evs0)"] a
    by (simp add: no_connect_sql_exercise)
  have e1m: "metric_writes evs1 = []"
    using silent_andthen [of "(got, evs0)" "sql_exercise ''MySQL'' env"] a
      silent_get_connection(1) [of "sql_connect env" drv "\<not> result self"] g
    by (simp add: silent_sql_exercise)
  have e1k: "set (call_conns evs1) \<subseteq> set_option (my_connection d1)"
  proof (cases got)
    case (Inl e)
    then show ?thesis using a f(2) by (simp add: andthen_Inl)
  next
    case (Inr copt)
    then have "copt = my_connection d1" using f(3) by simp
    then show ?thesis
      using a Inr f(2) calls_sql_exercise [of "''MySQL''" env copt]
      by (auto simp: andthen_Inr call_conns_append)
  qed
  have ok: "r = Inr True \<longrightarrow> my_connection d1 \<noteq> None"
  proof
    assume t: "r = Inr True"
    then obtain copt where "got = Inr copt" and "fst (sql_exercise ''MySQL'' env copt) = Inr True"
      using a by (cases got) (auto simp: andthen_Inl andthen_Inr)
    then show "my_connection d1 \<noteq> None"
      using f(3) sql_exercise_needs_connection by blast
  qed
  show "connect_attempts evs = (if \<not> result self \<or> my_connection drv = None then 1 else 0)"
    using c u e1c f(1)
    by (cases r) (auto simp: connect_attempts_append record_and_sleep_quiet split: if_splits)
  show "drv' = fst (snd (MySQLConnection_get_connection (sql_connect env) drv (\<not> result self)))"
    using d g by simp
  show "set (call_conns evs) \<subseteq> set_option (my_connection drv')"
    using c u e1k d
    by (cases r) (auto simp: call_conns_append record_and_sleep_quiet split: if_splits)
  show "out = Inr () \<longrightarrow> metric_writes evs = [if result self' then 1 else 0]"
    using c u e1m
    by (cases r) (auto simp: metric_writes_append record_and_sleep_writes split: if_splits)
  show "out = Inr () \<and> result self' \<longrightarrow> my_connection drv' \<noteq> None"
    using c u ok d
    by (cases r) (auto split: if_splits)
qed



lemma mysql_loop_threads_state:
  assumes "\<not> stop_event self0"
      and "mysql_test_cycle env self0 drv0 = (Inr (), self1, drv1, evs1)"
  shows "mysql_test_query_check (env # envs) self0 drv0 =
           (case mysql_test_query_check envs self1 drv1 of
              (st, s, d, evs') \<Rightarrow> (st, s, d, evs1 @ evs'))"
  using assms by simp

text \<open>
  Claim C8. Take two consecutive cycles of the MySQL loop; the first completes and leaves
  the state from which the second starts. The first wrote 0 (failure) or 1 (success).
  The second calls \<open>get_connection\<close> with \<open>force=True\<close> exactly when the first wrote 0:
  then its first action is a connection attempt with the holder's own parameters, and
  if the library hands out a connection that one is cached and used. When the first
  wrote 1 there is no connection attempt, the holder is unchanged and holds a connection,
  and in either case every call of the second cycle is made on the cached connection.
\<close>

theorem mysql_force_follows_previous_outcome:
  assumes c1: "mysql_test_cycle env1 self0 drv0 = (Inr (), self1, drv1, evs1)"
      and c2: "mysql_test_cycle env2 self1 drv1 = (out, self2, drv2, evs2)"
  shows "(metric_writes evs1 = [0] \<or> metric_writes evs1 = [1])
     \<and> fst (snd (MySQLConnection_get_connection (sql_connect env2) drv1
                     (metric_writes evs1 = [0]))) = drv2
     \<and> connect_attempts evs2 = (if metric_writes evs1 = [0] then 1 else 0)
     \<and> (metric_writes evs1 = [0] \<longrightarrow>
          take 1 evs2 = [LibConnect (mysql_kwargs drv1)]
          \<and> (\<forall>c. sql_connect env2 (mysql_kwargs drv1) = Inr c \<longrightarrow> my_connection drv2 = Some c))
     \<and> (metric_writes evs1 = [1] \<longrightarrow> drv2 = drv1 \<and> my_connection drv1 \<noteq> None)
     \<and> set (call_conns evs2) \<subseteq> set_option (my_connection drv2)"
proof -
  note f1 = mysql_cycle_facts [OF c1]
  note f2 = mysql_cycle_facts [OF c2]
  have w: "metric_writes evs1 = [if result self1 then 1 else 0]"
    using f1(4) by simp
  have z: "(metric_writes evs1 = [0]) = (\<not> result self1)"
    using w by simp
  have o: "(metric_writes evs1 = [1]) = result self1"
    using w by simp
  have k: "result self1 \<longrightarrow> my_connection drv1 \<noteq> None"
    using f1(5) by simp
  obtain got d evs where g:
    "MySQLConnection_get_connection (sql_connect env2) drv1 (\<not> result self1) = (got, d, evs)"
    by (cases "MySQLConnection_get_connection (sql_connect env2) drv1 (\<not> result self1)") auto
  note gf = mysql_get_connection_facts [OF g]
  have d: "drv2 = d"
    using f2(2) g by simp
  obtain r evs' where a: "andthen (got, evs) (sql_exercise ''MySQL'' env2) = (r, evs')"
    by (cases "andthen (got, evs) (sql_exercise ''MySQL'' env2)") auto
  have pre: "\<exists>rest. evs' = evs @ rest"
    using a by (cases got) (auto simp: andthen_Inl andthen_Inr)
  have pre2: "\<exists>rest. evs2 = evs @ rest"
    using mysql_cycle_unfold [OF g a] c2 pre
    by (cases r) (auto split: if_splits)
  have t: "\<not> result self1 \<longrightarrow> take 1 evs2 = [LibConnect (mysql_kwargs drv1)]"
  proof
    assume n: "\<not> result self1"
    then have "take 1 evs = [LibConnect (mysql_kwargs drv1)]"
      using gf(5) by simp
    then obtain tl where "evs = LibConnect (mysql_kwargs drv1) # tl"
      by (cases evs) auto
    then show "take 1 evs2 = [LibConnect (mysql_kwargs drv1)]"
      using pre2 by auto
  qed
  show ?thesis
    using w z o k f2(1) f2(3) gf(4) gf(5) d g t
    by (auto split: if_splits)
qed


theorem mysql_force_follows_previous_outcome_witness:
  "connect_attempts (snd (snd (snd (mysql_test_cycle sql_broken test_ok mysql_cached)))) = 0
   \<and> fst (snd (snd (mysql_test_cycle sql_broken test_ok mysql_cached))) = mysql_cached
   \<and> connect_attempts (snd (snd (snd (mysql_test_cycle sql_up_again test0 mysql_cached)))) = 1
   \<and> my_connection (fst (snd (snd (mysql_test_cycle sql_up_again test0 mysql_cached)))) = Some fresh_conn"
proof -
  have "fst (mysql_test_cycle sql_up test0 mysql0) = Inr ()"
    and "fst (snd (mysql_test_cycle sql_up test0 mysql0)) = test_ok"
    and "fst (snd (snd (mysql_test_cycle sql_up test0 mysql0))) = mysql_cached"
    by code_simp+
  then have a1: "mysql_test_cycle sql_up test0 mysql0 =
      (Inr (), test_ok, mysql_cached, snd (snd (snd (mysql_test_cycle sql_up test0 mysql0))))"
    by (simp add: prod_eq_iff)
  have w1: "metric_writes (snd (snd (snd (mysql_test_cycle sql_up test0 mysql0)))) = [1]"
    by code_simp
  obtain out2 s2 d2 e2 where a2: "mysql_test_cycle sql_broken test_ok mysql_cached = (out2, s2, d2, e2)"
    by (cases "mysql_test_cycle sql_broken test_ok mysql_cached") auto
  have "fst (mysql_test_cycle sql_broken test_ok mysql_cached) = Inr ()"
    and "fst (snd (mysql_test_cycle sql_broken test_ok mysql_cached)) = test0"
    and "fst (snd (snd (mysql_test_cycle sql_broken test_ok mysql_cached))) = mysql_cached"
    by code_simp+
  then have b1: "mysql_test_cycle sql_broken test_ok mysql_cached =
      (Inr (), test0, mysql_cached, snd (snd (snd (mysql_test_cycle sql_broken test_ok mysql_cached))))"
    by (simp add: prod_eq_iff)
  have w2: "metric_writes (snd (snd (snd (mysql_test_cycle sql_broken test_ok mysql_cached)))) = [0]"
    by code_simp
  obtain out3 s3 d3 e3 where b2: "mysql_test_cycle sql_up_again test0 mysql_cached = (out3, s3, d3, e3)"
    by (cases "mysql_test_cycle sql_up_again test0 mysql_cached") auto
  have k: "sql_connect sql_up_again (mysql_kwargs mysql_cached) = Inr fresh_conn"
    by (simp add: sql_up_again_def accept_def)
  show ?thesis
    using mysql_force_follows_previous_outcome [OF a1 a2]
      mysql_force_follows_previous_outcome [OF b1 b2] w1 w2 a2 b2 k
    by simp
qed

section \<open>Start-up without a usable configuration\<close>

text \<open>
  Claim C4 (a missing or malformed configuration file gives an empty service set and
  start-up goes on with zero probe loops) at the input where the file is missing, and at
  the one where it cannot be parsed. \<open>Config.conf\<close> logs at CRITICAL and returns the empty
  dictionary, as its docstring says; \<open>Config.services\<close> then returns \<open>None\<close>, not an empty
  service set; \<open>trigger_monitoring\<close> starts the census thread and raises
  \<open>AttributeError\<close> at \<open>services.items()\<close>.
\<close>

theorem startup_raises_without_configuration:
  "fst (conf missing_config) = PDict []
   \<and> snd (conf missing_config) =
       [Opened ''/config/conf.yml'', Log CRITICAL ''Failed to load configuration'']
   \<and> fst (services missing_config) = Inr PNone
   \<and> fst (trigger_monitoring str_int missing_config fresh_process) = Raised AttributeError
   \<and> fst (snd (trigger_monitoring str_int missing_config fresh_process)) = [CensusThread]
   \<and> fst (trigger_monitoring str_int malformed_config fresh_process) = Raised AttributeError
   \<and> fst (snd (trigger_monitoring str_int malformed_config fresh_process)) = [CensusThread]"
  by (simp add: trigger_monitoring_def services_def conf_def missing_config_def
      malformed_config_def Let_def)

section \<open>A service of an unknown type\<close>

lemma import_module_error: "import_module t = Inl e \<Longrightarrow> e = ModuleNotFoundError"
  by (auto simp: import_module_def split: pyval.splits if_splits)

lemma getattr_test_error: "getattr_test m = Inl e \<Longrightarrow> e = AttributeError"
  by (cases m) simp_all

lemma create_unknown_type:
  assumes "py_get data ''type'' PNone = Inr t"
      and "import_module t = Inl e \<or> (\<exists>m. import_module t = Inr m \<and> getattr_test m = Inl e)"
  shows "create_monitoring_thread str_int st service data = (Inl e, st)"
  using assms by (cases data) (auto simp: create_monitoring_thread_def)

lemma create_labels:
  "create_monitoring_thread str_int st service data = (Inr th, st') \<Longrightarrow>
     \<exists>t l. th = ProbeThread t l \<and> lbl_name l = service"
  by (auto simp: create_monitoring_thread_def split: sum.splits prod.splits)

lemma probes_append: "probes (xs @ ys) = probes xs @ probes ys"
  by (induction xs rule: probes.induct) simp_all

lemma started_services_append:
  "started_services (xs @ ys) = started_services xs @ started_services ys"
  by (simp add: started_services_def probes_append)

lemma start_all_append:
  "start_all str_int pre pool st = (Blocked, pool', st') \<Longrightarrow>
     start_all str_int (pre @ rest) pool st = start_all str_int rest pool' st'"
proof (induction str_int pre pool st rule: start_all.induct)
  case (1 str_int thread_pool st)
  then show ?case by simp
next
  case (2 str_int service data rest' thread_pool st)
  then show ?case
    by (auto split: prod.splits sum.splits)
qed

lemma start_all_started:
  "start_all str_int items pool st = (Blocked, pool', st') \<Longrightarrow>
     started_services pool' = started_services pool @ map fst items"
proof (induction str_int items pool st rule: start_all.induct)
  case (1 str_int thread_pool st)
  then show ?case by simp
next
  case (2 str_int service data rest thread_pool st)
  then show ?case
    by (auto simp: started_services_def probes_append
        split: prod.splits sum.splits dest!: create_labels)
qed

text \<open>
  Claim C3, as amended. When the type of a configured service does not resolve to a test
  class, \<open>trigger_monitoring\<close> ends with an uncaught exception at that service:
  \<open>ModuleNotFoundError\<close> when the type names no module of the package, \<open>AttributeError\<close>
  when it names a module without a \<open>_test\<close> class. The probe threads started are exactly
  those of the services listed before it, provided each of them started; it and every
  service listed after it are not started, and the process state is the one those
  earlier services left.
\<close>

theorem unknown_type_aborts_startup:
  assumes "services fs = (Inr (PDict (pre @ (service, data) # post)), evs)"
      and "start_all str_int pre [CensusThread] st = (Blocked, pool, st')"
      and "py_get data ''type'' PNone = Inr t"
      and "import_module t = Inl e \<or> (\<exists>m. import_module t = Inr m \<and> getattr_test m = Inl e)"
  shows "trigger_monitoring str_int fs st = (Raised e, pool, st', evs)
         \<and> (e = ModuleNotFoundError \<or> e = AttributeError)
         \<and> started_services pool = map fst pre"
proof -
  have e: "e = ModuleNotFoundError \<or> e = AttributeError"
    using assms(4) import_module_error getattr_test_error by blast
  have "start_all str_int (pre @ (service, data) # post) [CensusThread] st =
          start_all str_int ((service, data) # post) pool st'"
    using assms(2) by (rule start_all_append)
  also have "\<dots> = (Raised e, pool, st')"
    using create_unknown_type [OF assms(3) assms(4)] by simp
  finally have s: "start_all str_int (pre @ (service, data) # post) [CensusThread] st = (Raised e, pool, st')" .
  have n: "started_services pool = map fst pre"
    using start_all_started [OF assms(2)] by (simp add: started_services_def)
  show ?thesis
    using assms(1) s e n by (simp add: trigger_monitoring_def)
qed


theorem unknown_type_aborts_startup_witness:
  "fst (trigger_monitoring ascii_int (config_with redis_unknown_mysql) fresh_process) = Raised ModuleNotFoundError
   \<and> started_services (fst (snd (trigger_monitoring ascii_int (config_with redis_unknown_mysql) fresh_process))) =
       [''cache1'']"
proof -
  let ?pre = "[(''cache1'', service_entry ''redis'' ''cache1.internal'' 6379 (PStr '' 3''))]"
  let ?post = "[(''db1'', service_entry ''mysql'' ''db1.internal'' 3306 (PStr ''app''))]"
  let ?data = "service_entry ''oracle'' ''ora.internal'' 1521 (PStr ''app'')"
  let ?X = "start_all ascii_int ?pre [CensusThread] fresh_process"
  have h1: "services (config_with redis_unknown_mysql) =
      (Inr (PDict (?pre @ (''legacy'', ?data) # ?post)),
       [Opened ''/config/conf.yml'', Log INFO ''Configuration loaded''])"
    by (simp add: services_def conf_def config_with_def redis_unknown_mysql_def Let_def)
  have "fst ?X = Blocked"
    by code_simp
  then have h2: "?X = (Blocked, fst (snd ?X), snd (snd ?X))"
    by (simp add: prod_eq_iff)
  have h3: "py_get ?data ''type'' PNone = Inr (PStr ''oracle'')"
    by (simp add: service_entry_def)
  have h4: "import_module (PStr ''oracle'') = Inl ModuleNotFoundError
      \<or> (\<exists>m. import_module (PStr ''oracle'') = Inr m \<and> getattr_test m = Inl ModuleNotFoundError)"
    by (simp add: import_module_def)
  show ?thesis
    using unknown_type_aborts_startup [OF h1 h2 h3 h4] by simp
qed

text \<open>
  The claim as stated (the remaining services are still started) fails when the service
  of unknown type is listed first: the Redis service after it is never started.
\<close>

theorem unknown_type_stops_later_services_counterexample:
  "fst (trigger_monitoring ascii_int (config_with unknown_then_redis) fresh_process) = Raised ModuleNotFoundError
   \<and> started_services (fst (snd (trigger_monitoring ascii_int (config_with unknown_then_redis) fresh_process))) = []"
  by (simp add: trigger_monitoring_def services_def conf_def config_with_def
      unknown_then_redis_def service_entry_def create_monitoring_thread_def import_module_def
      started_services_def Let_def)

section \<open>Connection holders are singletons of their class\<close>

text \<open>
  Well-formedness of the process is kept by \<open>__new__\<close> of every class, by the
  constructors of the test classes, by \<open>create_monitoring_thread\<close> and by the start-up
  loop; objects once created are not changed during start-up.
\<close>

lemma extends_refl: "extends st st"
  by (simp add: extends_def)

lemma extends_trans: "extends a b \<Longrightarrow> extends b c \<Longrightarrow> extends a c"
  by (auto simp: extends_def)

lemma wf_process_iff:
  "wf_process st =
     (\<forall>k a. instances st k = Some a \<longrightarrow> a < length (heap st) \<and> kind_of (heap st ! a) = k)"
proof
  assume w: "wf_process st"
  show "\<forall>k a. instances st k = Some a \<longrightarrow> a < length (heap st) \<and> kind_of (heap st ! a) = k"
  proof (intro allI impI)
    fix k a
    assume i: "instances st k = Some a"
    have "points_to_own_class st k"
      using w by (cases k) (simp_all add: wf_process_def)
    then show "a < length (heap st) \<and> kind_of (heap st ! a) = k"
      using i by (simp add: points_to_own_class_def)
  qed
next
  assume "\<forall>k a. instances st k = Some a \<longrightarrow> a < length (heap st) \<and> kind_of (heap st ! a) = k"
  then show "wf_process st"
    by (simp add: wf_process_def points_to_own_class_def split: option.splits)
qed

lemma wf_allocate:
  assumes "wf_process st" and "instances st k = None"
  shows "wf_process (snd (allocate k st))" and "extends st (snd (allocate k st))"
    and "fst (allocate k st) = length (heap st)"
    and "instances (snd (allocate k st)) k = Some (length (heap st))"
    and "length (heap (snd (allocate k st))) = Suc (length (heap st))"
  using assms
  by (auto simp: allocate_def wf_process_iff extends_def nth_append less_Suc_eq)

lemma wf_store:
  assumes "wf_process st" and "instances st k = Some a" and "kind_of ob = k"
  shows "wf_process (store a ob st)"
    and "instances (store a ob st) = instances st"
    and "length (heap (store a ob st)) = length (heap st)"
    and "\<forall>b. b \<noteq> a \<longrightarrow> heap (store a ob st) ! b = heap st ! b"
  using assms
  by (auto simp: store_def wf_process_iff nth_list_update) metis+


lemma allocate_grows:
  assumes "wf_process st" and "instances st k = None" and "allocate k st = (a, st1)"
  shows "a = length (heap st)" and "grows_to k st st1"
    and "kind_of ob = k \<longrightarrow> grows_to k st (store a ob st1)"
proof -
  have a: "a = length (heap st)" and s: "st1 = snd (allocate k st)"
    using assms(3) wf_allocate(3) [OF assms(1,2)] by auto
  note w = wf_allocate [OF assms(1,2)]
  show "a = length (heap st)" by (rule a)
  show g: "grows_to k st st1"
    using w s by (simp add: grows_to_def)
  show "kind_of ob = k \<longrightarrow> grows_to k st (store a ob st1)"
  proof
    assume k: "kind_of ob = k"
    have i: "instances st1 k = Some a"
      using w(4) s a by simp
    have w1: "wf_process st1"
      using w(1) s by simp
    note t = wf_store [OF w1 i k]
    have "extends st (store a ob st1)"
      using w(2) s t(2) t(3) t(4) a
      by (auto simp: extends_def)
    then show "grows_to k st (store a ob st1)"
      using t(1) t(2) i a by (simp add: grows_to_def)
  qed
qed

lemma MySQLConnection_new_facts:
  assumes w: "wf_process st" and n: "MySQLConnection_new st authentication fqdn port = (r, st')"
  shows "wf_process st' \<and> extends st st' \<and> (\<forall>a. r = Inr a \<longrightarrow> instances st' MySQL = Some a)"
proof (cases "instances st MySQL")
  case (Some a)
  then show ?thesis
    using w n by (auto simp: MySQLConnection_new_def extends_refl)
next
  case None
  obtain a st1 where al: "allocate MySQL st = (a, st1)"
    by (cases "allocate MySQL st") auto
  note g = allocate_grows [OF w None al]
  have "grows_to MySQL st st' \<and> (\<forall>b. r = Inr b \<longrightarrow> b = a)"
    using n None al g(2) g(3)
    by (auto simp: MySQLConnection_new_def split: sum.splits)
  then show ?thesis
    using g(1) by (auto simp: grows_to_def)
qed


lemma PostgreSQLConnection_new_facts:
  assumes w: "wf_process st" and n: "PostgreSQLConnection_new st authentication fqdn port = (r, st')"
  shows "wf_process st' \<and> extends st st' \<and> (\<forall>a. r = Inr a \<longrightarrow> instances st' PostgreSQL = Some a)"
proof (cases "instances st PostgreSQL")
  case (Some a)
  then show ?thesis
    using w n by (auto simp: PostgreSQLConnection_new_def extends_refl)
next
  case None
  obtain a st1 where al: "allocate PostgreSQL st = (a, st1)"
    by (cases "allocate PostgreSQL st") auto
  note g = allocate_grows [OF w None al]
  have "grows_to PostgreSQL st st' \<and> (\<forall>b. r = Inr b \<longrightarrow> b = a)"
    using n None al g(2) g(3)
    by (auto simp: PostgreSQLConnection_new_def split: sum.splits)
  then show ?thesis
    using g(1) by (auto simp: grows_to_def)
qed


lemma RedisConnection_new_facts:
  assumes w: "wf_process st" and n: "RedisConnection_new str_int st authentication fqdn port = (r, st')"
  shows "wf_process st' \<and> extends st st' \<and> (\<forall>a. r = Inr a \<longrightarrow> instances st' Redis = Some a)"
proof (cases "instances st Redis")
  case (Some a)
  then show ?thesis
    using w n by (auto simp: RedisConnection_new_def extends_refl)
next
  case None
  obtain a st1 where al: "allocate Redis st = (a, st1)"
    by (cases "allocate Redis st") auto
  note g = allocate_grows [OF w None al]
  have "grows_to Redis st st' \<and> (\<forall>b. r = Inr b \<longrightarrow> b = a)"
    using n None al g(2) g(3)
    by (auto simp: RedisConnection_new_def split: sum.splits)
  then show ?thesis
    using g(1) by (auto simp: grows_to_def)
qed


lemma RabbitMQConnection_new_facts:
  assumes w: "wf_process st" and n: "RabbitMQConnection_new st authentication fqdn port = (r, st')"
  shows "wf_process st' \<and> extends st st' \<and> (\<forall>a. r = Inr a \<longrightarrow> instances st' RabbitMQ = Some a)"
proof (cases "instances st RabbitMQ")
  case (Some a)
  then show ?thesis
    using w n by (auto simp: RabbitMQConnection_new_def extends_refl)
next
  case None
  obtain a st1 where al: "allocate RabbitMQ st = (a, st1)"
    by (cases "allocate RabbitMQ st") auto
  note g = allocate_grows [OF w None al]
  have "grows_to RabbitMQ st st' \<and> (\<forall>b. r = Inr b \<longrightarrow> b = a)"
    using n None al g(2) g(3)
    by (auto simp: RabbitMQConnection_new_def split: sum.splits)
  then show ?thesis
    using g(1) by (auto simp: grows_to_def)
qed


lemma test_init_facts:
  assumes w: "wf_process st"
      and n: "test_init str_int cls st authentication fqdn port interval = (r, st')"
  shows "wf_process st' \<and> extends st st'
         \<and> (\<forall>t. r = Inr t \<longrightarrow> t_kind t = cls \<and> instances st' cls = Some (t_driver t))"
proof (cases cls)
  case MySQL
  obtain r1 s1 where x: "MySQLConnection_new st authentication fqdn port = (r1, s1)"
    by (cases "MySQLConnection_new st authentication fqdn port") auto
  show ?thesis
    using MySQLConnection_new_facts [OF w x] n x MySQL
    by (cases r1) (auto simp: test_init_def)
next
  case PostgreSQL
  obtain r1 s1 where x: "PostgreSQLConnection_new st authentication fqdn port = (r1, s1)"
    by (cases "PostgreSQLConnection_new st authentication fqdn port") auto
  show ?thesis
    using PostgreSQLConnection_new_facts [OF w x] n x PostgreSQL
    by (cases r1) (auto simp: test_init_def)
next
  case Redis
  obtain r1 s1 where x: "RedisConnection_new str_int st authentication fqdn port = (r1, s1)"
    by (cases "RedisConnection_new str_int st authentication fqdn port") auto
  show ?thesis
    using RedisConnection_new_facts [OF w x] n x Redis
    by (cases r1) (auto simp: test_init_def)
next
  case RabbitMQ
  obtain r1 s1 where x: "RabbitMQConnection_new st authentication fqdn port = (r1, s1)"
    by (cases "RabbitMQConnection_new st authentication fqdn port") auto
  show ?thesis
    using RabbitMQConnection_new_facts [OF w x] n x RabbitMQ
    by (cases r1) (auto simp: test_init_def)
qed

lemma create_monitoring_thread_facts:
  assumes w: "wf_process st"
      and c: "create_monitoring_thread str_int st service data = (r, st')"
  shows "wf_process st' \<and> extends st st'
         \<and> (\<forall>th. r = Inr th \<longrightarrow>
               (\<exists>t l. th = ProbeThread t l \<and> instances st' (t_kind t) = Some (t_driver t)))"
proof -
  have "(st' = st \<and> (\<exists>e. r = Inl e))
        \<or> (\<exists>cls authentication fqdn port interval service_type r1.
              test_init str_int cls st authentication fqdn port interval = (r1, st')
              \<and> (case r1 of
                    Inl e \<Rightarrow> r = Inl e
                  | Inr m \<Rightarrow> r = Inr (ProbeThread m
                      \<lparr>lbl_name = service, lbl_fqdn = fqdn, lbl_port = port, lbl_type = service_type\<rparr>)))"
    using c
    by (auto simp: create_monitoring_thread_def split: sum.splits prod.splits) force+
  then show ?thesis
  proof
    assume "st' = st \<and> (\<exists>e. r = Inl e)"
    then show ?thesis using w by (auto simp: extends_refl)
  next
    assume "\<exists>cls authentication fqdn port interval service_type r1.
              test_init str_int cls st authentication fqdn port interval = (r1, st')
              \<and> (case r1 of
                    Inl e \<Rightarrow> r = Inl e
                  | Inr m \<Rightarrow> r = Inr (ProbeThread m
                      \<lparr>lbl_name = service, lbl_fqdn = fqdn, lbl_port = port, lbl_type = service_type\<rparr>))"
    then obtain cls authentication fqdn port interval service_type r1 where
      t: "test_init str_int cls st authentication fqdn port interval = (r1, st')" and
      r: "case r1 of
            Inl e \<Rightarrow> r = Inl e
          | Inr m \<Rightarrow> r = Inr (ProbeThread m
              \<lparr>lbl_name = service, lbl_fqdn = fqdn, lbl_port = port, lbl_type = service_type\<rparr>)"
      by blast
    show ?thesis
      using test_init_facts [OF w t] r by (cases r1) auto
  qed
qed


lemma start_all_invariant:
  assumes "wf_process st"
      and "\<forall>p \<in> set (probes pool). instances st (t_kind (fst p)) = Some (t_driver (fst p))"
      and "start_all str_int items pool st = (out, pool', st')"
  shows "wf_process st' \<and> extends st st'
         \<and> (\<forall>p \<in> set (probes pool'). instances st' (t_kind (fst p)) = Some (t_driver (fst p)))"
  using assms
proof (induction str_int items pool st rule: start_all.induct)
  case (1 str_int thread_pool st)
  then show ?case by (simp add: extends_refl)
next
  case (2 str_int service data rest thread_pool st)
  obtain r s1 where c: "create_monitoring_thread str_int st service data = (r, s1)"
    by (cases "create_monitoring_thread str_int st service data") auto
  note f = create_monitoring_thread_facts [OF "2.prems"(1) c]
  have keep: "\<forall>p \<in> set (probes thread_pool). instances s1 (t_kind (fst p)) = Some (t_driver (fst p))"
    using "2.prems"(2) f by (auto simp: extends_def)
  show ?case
  proof (cases r)
    case (Inl e)
    then show ?thesis
      using c "2.prems"(3) f keep by auto
  next
    case (Inr th)
    then obtain t l where th: "th = ProbeThread t l"
      and i: "instances s1 (t_kind t) = Some (t_driver t)"
      using f by auto
    have b: "\<forall>p \<in> set (probes (thread_pool @ [th])).
               instances s1 (t_kind (fst p)) = Some (t_driver (fst p))"
      using keep th i by (auto simp: probes_append)
    have s: "start_all str_int rest (thread_pool @ [th]) s1 = (out, pool', st')"
      using "2.prems"(3) c Inr by simp
    have "wf_process st' \<and> extends s1 st'
         \<and> (\<forall>p \<in> set (probes pool'). instances st' (t_kind (fst p)) = Some (t_driver (fst p)))"
      using "2.IH" [OF c [symmetric] Inr _ b s] f by auto
    then show ?thesis
      using f extends_trans by blast
  qed
qed

lemma wf_fresh_process: "wf_process fresh_process"
  by (simp add: wf_process_def points_to_own_class_def fresh_process_def no_instances_def)


lemma test_init_reuses:
  assumes "instances p k = Some a"
  shows "test_init str_int k p authentication fqdn port interval =
           (Inr \<lparr>t_kind = k, t_driver = a,
                 t_state = \<lparr>check_interval = interval, stop_event = False, result = False\<rparr>\<rparr>, p)"
  using assms
  by (cases k)
     (simp_all add: test_init_def MySQLConnection_new_def PostgreSQLConnection_new_def
        RedisConnection_new_def RabbitMQConnection_new_def)

lemma type_string_inj: "type_string k = type_string k' \<Longrightarrow> k = k'"
  by (cases k; cases k') simp_all

lemma first_of_type_append:
  "first_of_type ty (xs @ ys) =
     (case first_of_type ty xs of Some d \<Rightarrow> Some d | None \<Rightarrow> first_of_type ty ys)"
  by (induction xs) auto

lemma first_of_type_None:
  "(\<forall>x \<in> set xs. py_get (snd x) ''type'' PNone \<noteq> Inr ty) \<Longrightarrow> first_of_type ty xs = None"
  by (induction xs) auto

lemma test_init_outcome:
  assumes "test_init str_int k st auth fqdn port ival = (Inr t, st')"
  shows "t_kind t = k
     \<and> (\<forall>k'. k' \<noteq> k \<longrightarrow> instances st' k' = instances st k')
     \<and> (case instances st k of
           Some a \<Rightarrow> t_driver t = a \<and> st' = st
         | None \<Rightarrow>
             t_driver t = length (heap st)
             \<and> holder_args (heap st' ! length (heap st)) =
                 declared_kwargs str_int k
                   (PDict [(''fqdn'', fqdn), (''port'', port), (''authentication'', auth)]))"
  using assms
  by (cases k)
     (auto simp: test_init_def MySQLConnection_new_def PostgreSQLConnection_new_def
        RedisConnection_new_def RabbitMQConnection_new_def allocate_def store_def
        mysql_kwargs_def postgresql_kwargs_def redis_kwargs_def rabbitmq_kwargs_def
        declared_kwargs_def entry_def Let_def
        split: sum.splits option.splits)

lemma declared_kwargs_fields:
  assumes "entry d ''fqdn'' PNone = fqdn" and "entry d ''port'' PNone = port"
      and "entry d ''authentication'' PNone = auth"
  shows "declared_kwargs str_int k (PDict [(''fqdn'', fqdn), (''port'', port), (''authentication'', auth)]) =
         declared_kwargs str_int k d"
  using assms by (simp add: declared_kwargs_def entry_def)

lemma import_getattr_type:
  assumes "import_module ty = Inr m" and "getattr_test m = Inr k"
  shows "ty = PStr (type_string k)"
  using assms
  by (cases ty; cases m) (auto simp: import_module_def split: if_splits)

lemma create_outcome:
  assumes c: "create_monitoring_thread str_int st service data = (Inr th, st')"
  shows "\<exists>t l. th = ProbeThread t l \<and> lbl_name l = service
       \<and> py_get data ''type'' PNone = Inr (lbl_type l)
       \<and> lbl_type l = PStr (type_string (t_kind t))
       \<and> (\<forall>k'. k' \<noteq> t_kind t \<longrightarrow> instances st' k' = instances st k')
       \<and> (case instances st (t_kind t) of
             Some a \<Rightarrow> t_driver t = a \<and> st' = st
           | None \<Rightarrow>
               t_driver t = length (heap st)
               \<and> holder_args (heap st' ! length (heap st)) =
                   declared_kwargs str_int (t_kind t) data)"
proof -
  obtain ty fqdn auth port ival m k t where
        g: "py_get data ''type'' PNone = Inr ty" "py_get data ''fqdn'' PNone = Inr fqdn"
           "py_get data ''authentication'' PNone = Inr auth" "py_get data ''port'' PNone = Inr port"
    and i: "import_module ty = Inr m" "getattr_test m = Inr k"
    and t: "test_init str_int k st auth fqdn port ival = (Inr t, st')"
    and h: "th = ProbeThread t \<lparr>lbl_name = service, lbl_fqdn = fqdn, lbl_port = port, lbl_type = ty\<rparr>"
    using c
    by (auto simp: create_monitoring_thread_def split: sum.splits prod.splits)
  have e: "entry data ''fqdn'' PNone = fqdn" "entry data ''port'' PNone = port"
    "entry data ''authentication'' PNone = auth"
    using g by (simp_all add: entry_def)
  note o = test_init_outcome [OF t]
  note d = declared_kwargs_fields [OF e, of str_int k]
  have ty: "ty = PStr (type_string k)"
    using i by (rule import_getattr_type)
  show ?thesis
    using o d ty g h by (auto split: option.splits)
qed


lemma built_from_later:
  assumes b: "built_from str_int seen st p" and w: "wf_process st" and e: "extends st st'"
  shows "built_from str_int (seen @ extra) st' p"
proof -
  have i: "instances st (t_kind (fst p)) = Some (t_driver (fst p))"
    using b by (simp add: built_from_def)
  then have l: "t_driver (fst p) < length (heap st)"
    using w by (simp add: wf_process_iff)
  have h: "heap st' ! t_driver (fst p) = heap st ! t_driver (fst p)"
    using e l by (simp add: extends_def)
  have i': "instances st' (t_kind (fst p)) = Some (t_driver (fst p))"
    using e i by (simp add: extends_def)
  show ?thesis
    using b h i'
    by (auto simp: built_from_def first_of_type_append split: option.splits)
qed

lemma start_all_built:
  assumes "wf_process st"
      and "\<forall>p \<in> set (probes pool). built_from str_int seen st p"
      and "\<forall>k. instances st k \<noteq> None \<longrightarrow> (\<exists>p \<in> set (probes pool). t_kind (fst p) = k)"
      and "\<forall>x \<in> set seen. \<exists>k. py_get (snd x) ''type'' PNone = Inr (PStr (type_string k))
                                \<and> instances st k \<noteq> None"
      and "start_all str_int rest pool st = (out, pool', st')"
  shows "wf_process st' \<and> (\<forall>p \<in> set (probes pool'). built_from str_int (seen @ rest) st' p)"
  using assms
proof (induction rest arbitrary: seen pool st)
  case Nil
  then show ?case by simp
next
  case (Cons item rest)
  obtain service data where item: "item = (service, data)"
    by (cases item) auto
  obtain r s1 where c: "create_monitoring_thread str_int st service data = (r, s1)"
    by (cases "create_monitoring_thread str_int st service data") auto
  note f = create_monitoring_thread_facts [OF Cons.prems(1) c]
  have w1: "wf_process s1" and e1: "extends st s1"
    using f by simp_all
  have old: "\<forall>p \<in> set (probes pool). built_from str_int (seen @ extra) s1 p" for extra
    using Cons.prems(2) built_from_later [OF _ Cons.prems(1) e1] by blast
  show ?case
  proof (cases r)
    case (Inl e)
    then have "pool' = pool" "st' = s1"
      using Cons.prems(5) c item by simp_all
    then show ?thesis
      using w1 old [of "item # rest"] by simp
  next
    case (Inr th)
    from create_outcome [OF c [unfolded Inr]] obtain t l where
          th: "th = ProbeThread t l"
      and ty: "py_get data ''type'' PNone = Inr (lbl_type l)"
      and lt: "lbl_type l = PStr (type_string (t_kind t))"
      and ot: "\<forall>k'. k' \<noteq> t_kind t \<longrightarrow> instances s1 k' = instances st k'"
      and cs: "case instances st (t_kind t) of
                 Some a \<Rightarrow> t_driver t = a \<and> s1 = st
               | None \<Rightarrow>
                   t_driver t = length (heap st)
                   \<and> holder_args (heap s1 ! length (heap st)) =
                       declared_kwargs str_int (t_kind t) data"
      by blast
    have it: "instances s1 (t_kind t) = Some (t_driver t)"
      using f Inr th by auto
    have new: "built_from str_int (seen @ [item]) s1 (t, l)"
    proof (cases "instances st (t_kind t)")
      case None
      have "\<forall>x \<in> set seen. py_get (snd x) ''type'' PNone \<noteq> Inr (lbl_type l)"
      proof
        fix x assume "x \<in> set seen"
        then obtain k where k: "py_get (snd x) ''type'' PNone = Inr (PStr (type_string k))"
          and ik: "instances st k \<noteq> None"
          using Cons.prems(4) by blast
        have "k \<noteq> t_kind t" using ik None by auto
        then show "py_get (snd x) ''type'' PNone \<noteq> Inr (lbl_type l)"
          using k lt type_string_inj by auto
      qed
      then have "first_of_type (lbl_type l) seen = None"
        by (rule first_of_type_None)
      then have "first_of_type (lbl_type l) (seen @ [item]) = Some data"
        using ty item by (simp add: first_of_type_append)
      then show ?thesis
        using it lt cs None by (simp add: built_from_def)
    next
      case (Some a)
      then have s: "s1 = st" and a: "t_driver t = a"
        using cs by simp_all
      obtain p0 where p0: "p0 \<in> set (probes pool)" and k0: "t_kind (fst p0) = t_kind t"
        using Cons.prems(3) Some by force
      have b0: "built_from str_int seen st p0"
        using Cons.prems(2) p0 by blast
      have "t_driver (fst p0) = a"
        using b0 k0 Some by (simp add: built_from_def)
      then show ?thesis
        using b0 k0 lt it s a
        by (auto simp: built_from_def first_of_type_append split: option.splits)
    qed
    have p2: "\<forall>p \<in> set (probes (pool @ [th])). built_from str_int (seen @ [item]) s1 p"
      using old [of "[item]"] new th by (auto simp: probes_append)
    have p3: "\<forall>k. instances s1 k \<noteq> None \<longrightarrow> (\<exists>p \<in> set (probes (pool @ [th])). t_kind (fst p) = k)"
    proof (intro allI impI)
      fix k assume n: "instances s1 k \<noteq> None"
      show "\<exists>p \<in> set (probes (pool @ [th])). t_kind (fst p) = k"
      proof (cases "k = t_kind t")
        case True
        then show ?thesis using th by (auto simp: probes_append)
      next
        case False
        then have "instances st k \<noteq> None" using ot n by simp
        then show ?thesis using Cons.prems(3) by (auto simp: probes_append)
      qed
    qed
    have p4: "\<forall>x \<in> set (seen @ [item]). \<exists>k. py_get (snd x) ''type'' PNone = Inr (PStr (type_string k))
                                \<and> instances s1 k \<noteq> None"
    proof
      fix x assume "x \<in> set (seen @ [item])"
      then consider "x \<in> set seen" | "x = item" by auto
      then show "\<exists>k. py_get (snd x) ''type'' PNone = Inr (PStr (type_string k)) \<and> instances s1 k \<noteq> None"
      proof cases
        case 1
        then obtain k where "py_get (snd x) ''type'' PNone = Inr (PStr (type_string k))"
          and "instances st k \<noteq> None"
          using Cons.prems(4) by blast
        then show ?thesis using e1 by (auto simp: extends_def)
      next
        case 2
        then show ?thesis using ty lt it item by auto
      qed
    qed
    have s: "start_all str_int rest (pool @ [th]) s1 = (out, pool', st')"
      using Cons.prems(5) c Inr item by simp
    from Cons.IH [OF w1 p2 p3 p4 s] show ?thesis by simp
  qed
qed

text \<open>
  Claim C2, as amended. Connection holders are per service type, not per service: each
  \<open>*Connection\<close> class is a process-wide singleton. Of the probe threads start-up
  created, two are bound to the same holder object exactly when their services declare
  the same \<open>type\<close>. The declared type of a probe's service is the type string of the
  probe's class, and the probe's holder is the \<open>_instance\<close> of that class, an object of
  that class. The holder is constructed from the fqdn, the port and the credentials (user
  name, password and database) of the \<^emph>\<open>first\<close> service of that type in the
  configuration, not from the probe's own service. When a class already has an instance,
  the constructor of a test object returns it and changes nothing, whatever fqdn, port and
  credentials the service declares, and start-up never changes an object once it is
  allocated.
\<close>

theorem drivers_are_singletons_per_type:
  assumes "trigger_monitoring str_int fs fresh_process = (out, pool, st, evs)"
      and "(t1, l1) \<in> set (probes pool)"
      and "(t2, l2) \<in> set (probes pool)"
  shows "(t_driver t1 = t_driver t2) = (lbl_type l1 = lbl_type l2)
     \<and> lbl_type l1 = PStr (type_string (t_kind t1))
     \<and> instances st (t_kind t1) = Some (t_driver t1)
     \<and> t_driver t1 < length (heap st)
     \<and> kind_of (heap st ! t_driver t1) = t_kind t1
     \<and> (\<exists>items d. fst (services fs) = Inr (PDict items)
           \<and> first_of_type (lbl_type l1) items = Some d
           \<and> holder_args (heap st ! t_driver t1) = declared_kwargs str_int (t_kind t1) d)
     \<and> (\<forall>p k a authentication fqdn port interval.
          instances p k = Some a \<longrightarrow>
          test_init str_int k p authentication fqdn port interval =
            (Inr \<lparr>t_kind = k, t_driver = a,
                  t_state = \<lparr>check_interval = interval, stop_event = False, result = False\<rparr>\<rparr>, p))
     \<and> (\<forall>p items pool0 out' pool' p' a.
          wf_process p
          \<and> (\<forall>q \<in> set (probes pool0). instances p (t_kind (fst q)) = Some (t_driver (fst q)))
          \<and> start_all str_int items pool0 p = (out', pool', p') \<and> a < length (heap p) \<longrightarrow>
          heap p' ! a = heap p ! a)"
proof -
  have inv: "\<exists>items. fst (services fs) = Inr (PDict items) \<and> wf_process st
      \<and> (\<forall>p \<in> set (probes pool). built_from str_int items st p)"
  proof (cases "services fs")
    case (Pair r evs0)
    show ?thesis
    proof (cases r)
      case (Inl e)
      then show ?thesis
        using assms(1,2) Pair by (auto simp: trigger_monitoring_def)
    next
      case (Inr svcs)
      show ?thesis
      proof (cases "py_items svcs")
        case (Inl e)
        then show ?thesis
          using assms(1,2) Pair Inr by (auto simp: trigger_monitoring_def)
      next
        case items: (Inr items)
        then have sv: "svcs = PDict items"
          by (cases svcs) simp_all
        obtain o1 pl s1 where s: "start_all str_int items [CensusThread] fresh_process = (o1, pl, s1)"
          by (cases "start_all str_int items [CensusThread] fresh_process") auto
        have e: "pool = pl" "st = s1"
          using assms(1) Pair Inr items s by (auto simp: trigger_monitoring_def)
        have 2: "\<forall>p \<in> set (probes [CensusThread]). built_from str_int [] fresh_process p"
          by simp
        have 3: "\<forall>k. instances fresh_process k \<noteq> None \<longrightarrow>
                   (\<exists>p \<in> set (probes [CensusThread]). t_kind (fst p) = k)"
          by (simp add: fresh_process_def no_instances_def)
        have 4: "\<forall>x \<in> set []. \<exists>k. py_get (snd x) ''type'' PNone = Inr (PStr (type_string k))
                                \<and> instances fresh_process k \<noteq> None"
          by simp
        from start_all_built [OF wf_fresh_process 2 3 4 s] show ?thesis
          using e Pair Inr sv by simp
      qed
    qed
  qed
  then obtain items where sv: "fst (services fs) = Inr (PDict items)"
    and wf: "wf_process st"
    and bf: "\<forall>p \<in> set (probes pool). built_from str_int items st p"
    by blast
  have b1: "built_from str_int items st (t1, l1)" and b2: "built_from str_int items st (t2, l2)"
    using bf assms(2,3) by blast+
  have i1: "instances st (t_kind t1) = Some (t_driver t1)"
    and i2: "instances st (t_kind t2) = Some (t_driver t2)"
    using b1 b2 by (simp_all add: built_from_def)
  have y1: "lbl_type l1 = PStr (type_string (t_kind t1))"
    and y2: "lbl_type l2 = PStr (type_string (t_kind t2))"
    using b1 b2 by (simp_all add: built_from_def)
  have w: "\<forall>k a. instances st k = Some a \<longrightarrow> a < length (heap st) \<and> kind_of (heap st ! a) = k"
    using wf by (simp add: wf_process_iff)
  have "(t_driver t1 = t_driver t2) = (t_kind t1 = t_kind t2)"
    using i1 i2 w by (metis option.inject)
  moreover have "(lbl_type l1 = lbl_type l2) = (t_kind t1 = t_kind t2)"
    using y1 y2 type_string_inj by auto
  ultimately have a: "(t_driver t1 = t_driver t2) = (lbl_type l1 = lbl_type l2)"
    by simp
  have x: "t_driver t1 < length (heap st)" "kind_of (heap st ! t_driver t1) = t_kind t1"
    using w i1 by blast+
  have c: "\<exists>items d. fst (services fs) = Inr (PDict items)
           \<and> first_of_type (lbl_type l1) items = Some d
           \<and> holder_args (heap st ! t_driver t1) = declared_kwargs str_int (t_kind t1) d"
    using b1 sv by (auto simp: built_from_def split: option.splits)
  have b: "\<forall>p k a authentication fqdn port interval.
          instances p k = Some a \<longrightarrow>
          test_init str_int k p authentication fqdn port interval =
            (Inr \<lparr>t_kind = k, t_driver = a,
                  t_state = \<lparr>check_interval = interval, stop_event = False, result = False\<rparr>\<rparr>, p)"
    by (intro allI impI) (rule test_init_reuses)
  have d: "\<forall>p items pool0 out' pool' p' a.
          wf_process p
          \<and> (\<forall>q \<in> set (probes pool0). instances p (t_kind (fst q)) = Some (t_driver (fst q)))
          \<and> start_all str_int items pool0 p = (out', pool', p') \<and> a < length (heap p) \<longrightarrow>
          heap p' ! a = heap p ! a"
  proof (intro allI impI, elim conjE)
    fix p items pool0 out' pool' p' a
    assume 1: "wf_process p"
      and 2: "\<forall>q \<in> set (probes pool0). instances p (t_kind (fst q)) = Some (t_driver (fst q))"
      and 3: "start_all str_int items pool0 p = (out', pool', p')"
      and 4: "a < length (heap p)"
    have "extends p p'"
      using start_all_invariant [OF 1 2 3] by simp
    then show "heap p' ! a = heap p ! a"
      using 4 by (simp add: extends_def)
  qed
  show ?thesis
    using a y1 i1 x c b d by (simp only: simp_thms)
qed

theorem drivers_are_singletons_per_type_witness:
  "bound_drivers (fst (snd (trigger_monitoring ascii_int (config_with mysql_redis_mysql) fresh_process))) =
     [(''db1'', 0), (''cache1'', 1), (''db2'', 0)]
   \<and> kind_of (heap (fst (snd (snd (trigger_monitoring ascii_int (config_with mysql_redis_mysql) fresh_process)))) ! 0) = MySQL
   \<and> kind_of (heap (fst (snd (snd (trigger_monitoring ascii_int (config_with mysql_redis_mysql) fresh_process)))) ! 1) = Redis
   \<and> instances (fst (snd (snd (trigger_monitoring ascii_int (config_with mysql_redis_mysql) fresh_process)))) MySQL = Some 0
   \<and> holder_args (heap (fst (snd (snd (trigger_monitoring ascii_int (config_with mysql_redis_mysql) fresh_process)))) ! 0) =
       [(''user'', PStr ''monitor''), (''password'', PStr ''secret''), (''host'', PStr ''db1.internal''),
        (''port'', PInt 3306), (''database'', PStr ''app'')]
   \<and> holder_args (heap (fst (snd (snd (trigger_monitoring ascii_int (config_with mysql_redis_mysql) fresh_process)))) ! 1) =
       [(''host'', PStr ''cache1.internal''), (''port'', PInt 6379), (''db'', PInt 3),
        (''password'', PStr ''secret'')]"
proof -
  let ?fs = "config_with mysql_redis_mysql"
  let ?T = "trigger_monitoring ascii_int ?fs fresh_process"
  let ?st = "fst (snd (snd ?T))"
  let ?items = "[(''db1'', service_entry ''mysql'' ''db1.internal'' 3306 (PStr ''app'')),
                 (''cache1'', service_entry ''redis'' ''cache1.internal'' 6379 (PStr '' 3'')),
                 (''db2'', service_entry ''mysql'' ''db2.internal'' 3307 (PStr ''app''))]"
  have h1: "?T = (fst ?T, fst (snd ?T), fst (snd (snd ?T)), snd (snd (snd ?T)))"
    by simp
  have b: "bound_drivers (fst (snd ?T)) = [(''db1'', 0), (''cache1'', 1), (''db2'', 0)]"
    by code_simp
  let ?a = "probes (fst (snd ?T)) ! 2" and ?b = "probes (fst (snd ?T)) ! 1"
  have n: "length (probes (fst (snd ?T))) = 3"
    by code_simp
  have m1: "(fst ?a, snd ?a) \<in> set (probes (fst (snd ?T)))"
    and m2: "(fst ?b, snd ?b) \<in> set (probes (fst (snd ?T)))"
    using n by simp_all
  have k: "t_kind (fst ?a) = MySQL" "t_driver (fst ?a) = 0"
    "t_kind (fst ?b) = Redis" "t_driver (fst ?b) = 1"
    "lbl_type (snd ?a) = PStr ''mysql''" "lbl_type (snd ?b) = PStr ''redis''"
    "lbl_name (snd ?a) = ''db2''"
    by code_simp+
  have s: "fst (services ?fs) = Inr (PDict ?items)"
    by code_simp
  have f: "first_of_type (PStr ''mysql'') ?items = Some (service_entry ''mysql'' ''db1.internal'' 3306 (PStr ''app''))"
    "first_of_type (PStr ''redis'') ?items = Some (service_entry ''redis'' ''cache1.internal'' 6379 (PStr '' 3''))"
    by code_simp+
  have d: "declared_kwargs ascii_int MySQL (service_entry ''mysql'' ''db1.internal'' 3306 (PStr ''app'')) =
       [(''user'', PStr ''monitor''), (''password'', PStr ''secret''), (''host'', PStr ''db1.internal''),
        (''port'', PInt 3306), (''database'', PStr ''app'')]"
    "declared_kwargs ascii_int Redis (service_entry ''redis'' ''cache1.internal'' 6379 (PStr '' 3'')) =
       [(''host'', PStr ''cache1.internal''), (''port'', PInt 6379), (''db'', PInt 3),
        (''password'', PStr ''secret'')]"
    by code_simp+
  note A = drivers_are_singletons_per_type [OF h1 m1 m2]
  note B = drivers_are_singletons_per_type [OF h1 m2 m1]
  have a3: "instances ?st (t_kind (fst ?a)) = Some (t_driver (fst ?a))"
    by (rule A [THEN conjunct2, THEN conjunct2, THEN conjunct1])
  have a5: "kind_of (heap ?st ! t_driver (fst ?a)) = t_kind (fst ?a)"
    by (rule A [THEN conjunct2, THEN conjunct2, THEN conjunct2, THEN conjunct2, THEN conjunct1])
  have b5: "kind_of (heap ?st ! t_driver (fst ?b)) = t_kind (fst ?b)"
    by (rule B [THEN conjunct2, THEN conjunct2, THEN conjunct2, THEN conjunct2, THEN conjunct1])
  have "\<exists>items d. fst (services ?fs) = Inr (PDict items)
           \<and> first_of_type (lbl_type (snd ?a)) items = Some d
           \<and> holder_args (heap ?st ! t_driver (fst ?a)) = declared_kwargs ascii_int (t_kind (fst ?a)) d"
    by (rule A [THEN conjunct2, THEN conjunct2, THEN conjunct2, THEN conjunct2, THEN conjunct2,
                THEN conjunct1])
  then obtain items1 d1 where
        11: "fst (services ?fs) = Inr (PDict items1)"
    and 12: "first_of_type (lbl_type (snd ?a)) items1 = Some d1"
    and 13: "holder_args (heap ?st ! t_driver (fst ?a)) = declared_kwargs ascii_int (t_kind (fst ?a)) d1"
    by blast
  have "items1 = ?items"
    using 11 s by simp
  then have "d1 = service_entry ''mysql'' ''db1.internal'' 3306 (PStr ''app'')"
    using 12 f(1) k(5) by simp
  then have hm: "holder_args (heap ?st ! 0) =
       [(''user'', PStr ''monitor''), (''password'', PStr ''secret''), (''host'', PStr ''db1.internal''),
        (''port'', PInt 3306), (''database'', PStr ''app'')]"
    using 13 k(1,2) d(1) by simp
  have "\<exists>items d. fst (services ?fs) = Inr (PDict items)
           \<and> first_of_type (lbl_type (snd ?b)) items = Some d
           \<and> holder_args (heap ?st ! t_driver (fst ?b)) = declared_kwargs ascii_int (t_kind (fst ?b)) d"
    by (rule B [THEN conjunct2, THEN conjunct2, THEN conjunct2, THEN conjunct2, THEN conjunct2,
                THEN conjunct1])
  then obtain items2 d2 where
        21: "fst (services ?fs) = Inr (PDict items2)"
    and 22: "first_of_type (lbl_type (snd ?b)) items2 = Some d2"
    and 23: "holder_args (heap ?st ! t_driver (fst ?b)) = declared_kwargs ascii_int (t_kind (fst ?b)) d2"
    by blast
  have "items2 = ?items"
    using 21 s by simp
  then have "first_of_type (PStr ''redis'') ?items = Some d2"
    using 22 k(6) by (simp only:)
  then have "d2 = service_entry ''redis'' ''cache1.internal'' 6379 (PStr '' 3'')"
    using f(2) by (simp only: option.inject)
  then have hr: "holder_args (heap ?st ! 1) =
       [(''host'', PStr ''cache1.internal''), (''port'', PInt 6379), (''db'', PInt 3),
        (''password'', PStr ''secret'')]"
    using 23 k(3,4) d(2) by (simp only:)
  have km: "kind_of (heap ?st ! 0) = MySQL"
    using a5 k(1,2) by simp
  have kr: "kind_of (heap ?st ! 1) = Redis"
    using b5 k(3,4) by (simp only:)
  have im: "instances ?st MySQL = Some 0"
    using a3 k(1,2) by simp
  show ?thesis
    using b km kr im hm hr by (simp only: simp_thms)
qed

text \<open>
  The claim as stated fails for two MySQL services on different hosts: both probes are
  bound to the object at address 0, the only object there is, which holds the host and
  port of the first service.
\<close>

theorem same_type_services_share_driver_counterexample:
  "bound_drivers (fst (snd (trigger_monitoring ascii_int (config_with two_mysql) fresh_process))) =
     [(''db1'', 0), (''db2'', 0)]
   \<and> heap (fst (snd (snd (trigger_monitoring ascii_int (config_with two_mysql) fresh_process)))) =
     [MySQLObj \<lparr>my_username = PStr ''monitor'', my_password = PStr ''secret'',
        my_database = PStr ''app'', my_fqdn = PStr ''db1.internal'', my_port = PInt 3306,
        my_connection = None\<rparr>]"
  by code_simp

end
